theory Spec2Isabelle
  imports
    Complex_Main
    "HOL-Library.AList"
    "HOL-Library.Char_ord"
    "HOL-Library.List_Lexorder"
    "HOL-Library.Product_Lexorder"
begin

section \<open>The ordinal encoder of feature\_engine\<close>

text \<open>
  This theory embeds \<^verbatim>\<open>feature_engine/encoding/ordinal.py\<close>: the class
  \<^verbatim>\<open>OrdinalEncoder\<close>, its constructor and its method \<^verbatim>\<open>fit\<close>. The
  pandas operations that \<^verbatim>\<open>fit\<close> calls are written out as list functions. The
  methods the class inherits from \<^verbatim>\<open>BaseCategoricalTransformer\<close> are not part of
  the source file; they are modelled from the specification and marked as such.
\<close>

subsection \<open>Tables, series and errors\<close>

text \<open>
  A cell holds a label, a number or the missing-value marker. A frame is the list of its
  columns in order, each with its label: after \<^verbatim>\<open>temp.columns = ...\<close> two columns
  may carry the same label, so the list is not a map. Column labels are strings. The
  target series is a list of numbers, each held exactly as a rational (every finite
  float64 and every integer is one); the float64 arithmetic that pandas does on them is
  not idealised, see \<open>group_mean\<close> below. Rows are aligned by position (the default
  index).
\<close>

datatype cell = Str string | Num rat | NaN

type_synonym frame = "(string \<times> cell list) list"

type_synonym mapping = "(cell \<times> nat) list"

datatype error =
    ValueError_encoding_method
  | ValueError_variables
  | ValueError_no_target
  | TypeError_not_a_dataframe
  | KeyError string
  | ValueError_contains_na
  | NotOneDimensional string
  | UnboundLocalError
  | TypeError_not_iterable
  | AttributeError
  | ValueError_encoding_dictionary
  | NotFittedError
  | ValueError_input_shape

text \<open>
  The encoder object. \<open>encoder_dict\<close> and \<open>input_shape\<close> are the attributes
  \<^verbatim>\<open>encoder_dict_\<close> and \<^verbatim>\<open>input_shape_\<close>; they do not exist before the first
  \<^verbatim>\<open>fit\<close>, which is \<open>None\<close> here. A Python dict is an association list with
  distinct keys in insertion order, updated with \<open>AList.update\<close> (an existing key keeps
  its place, a new key goes to the end).
\<close>

record encoder =
  encoding_method :: string
  variables :: "string list option"
  encoder_dict :: "(string \<times> mapping) list option"
  input_shape :: "(nat \<times> nat) option"

subsection \<open>Frames\<close>

definition columns :: "frame \<Rightarrow> string list" where
  "columns X = map fst X"

definition nrows :: "frame \<Rightarrow> nat" where
  "nrows X = (case X of [] \<Rightarrow> 0 | c # _ \<Rightarrow> length (snd c))"

definition shape :: "frame \<Rightarrow> nat \<times> nat" where
  "shape X = (nrows X, length X)"

text \<open>
  \<^verbatim>\<open>X[var]\<close>: the column with that label. A label that is absent raises
  \<^verbatim>\<open>KeyError\<close>. A label carried by several columns selects a two-dimensional block,
  which none of the calls that follow in \<^verbatim>\<open>fit\<close> accepts
  (\<^verbatim>\<open>.unique()\<close>, a grouper, \<^verbatim>\<open>.sort_values(ascending=True)\<close>): that is the
  error \<open>NotOneDimensional\<close>.
\<close>

definition select :: "frame \<Rightarrow> string \<Rightarrow> error + cell list" where
  "select X var =
     (case filter (\<lambda>c. fst c = var) X of
        [] \<Rightarrow> Inl (KeyError var)
      | [c] \<Rightarrow> Inr (snd c)
      | _ \<Rightarrow> Inl (NotOneDimensional var))"

subsection \<open>The pandas operations of fit\<close>

text \<open>\<^verbatim>\<open>Series.unique()\<close>: the distinct values, in order of first appearance.\<close>

definition unique :: "'a list \<Rightarrow> 'a list" where
  "unique xs = fold (\<lambda>x seen. if x \<in> set seen then seen else seen @ [x]) xs []"

text \<open>
  \<^verbatim>\<open>pd.concat([X, y], axis=1)\<close> followed by
  \<^verbatim>\<open>temp.columns = list(X.columns) + ["target"]\<close>: the columns of \<open>X\<close> under
  their own labels, then \<open>y\<close> under the label \<^verbatim>\<open>target\<close>. The join is an outer
  join on the row index, so the shorter side is filled with the missing-value marker.
\<close>

definition pad :: "nat \<Rightarrow> cell list \<Rightarrow> cell list" where
  "pad n cs = cs @ replicate (n - length cs) NaN"

definition concat_target :: "frame \<Rightarrow> rat list \<Rightarrow> frame" where
  "concat_target X y =
     (let n = max (nrows X) (length y)
      in map (\<lambda>c. (fst c, pad n (snd c))) X @ [(''target'', pad n (map Num y))])"

text \<open>
  \<^verbatim>\<open>groupby([var])\<close>: one group for each distinct key that is not missing, the
  groups in ascending order of their keys (numbers before labels, as pandas orders a
  mixed column).
\<close>

fun cell_key :: "cell \<Rightarrow> nat \<times> rat \<times> string" where
  "cell_key (Num r) = (0, r, [])"
| "cell_key (Str s) = (1, 0, s)"
| "cell_key NaN = (2, 0, [])"

definition group_keys :: "cell list \<Rightarrow> cell list" where
  "group_keys ks = sort_key cell_key (remdups (filter (\<lambda>k. k \<noteq> NaN) ks))"

text \<open>The numbers of a column; \<^verbatim>\<open>mean\<close> skips the missing ones.\<close>

fun numbers :: "cell list \<Rightarrow> rat list" where
  "numbers [] = []"
| "numbers (Num r # cs) = r # numbers cs"
| "numbers (c # cs) = numbers cs"

definition group_values :: "cell list \<Rightarrow> cell list \<Rightarrow> cell \<Rightarrow> rat list" where
  "group_values ks ts k = numbers (map snd (filter (\<lambda>p. fst p = k) (zip ks ts)))"

text \<open>
  \<^verbatim>\<open>mean()\<close> of each group. pandas computes the mean of a group in float64, and
  which arithmetic it uses (conversion of the values, order of summation, rounding) is
  not in the source. It is the parameter \<open>group_mean\<close>: any function from the target
  values of a group, in row order, to the mean pandas computes for them, a value of a
  linearly ordered type or \<open>None\<close> for NaN. \<open>float64_mean\<close> below is one such
  function.
\<close>

definition group_means ::
    "(rat list \<Rightarrow> 'm option) \<Rightarrow> cell list \<Rightarrow> cell list \<Rightarrow> (cell \<times> 'm option) list" where
  "group_means group_mean ks ts =
     map (\<lambda>k. (k, group_mean (group_values ks ts k))) (group_keys ks)"

text \<open>
  \<^verbatim>\<open>sort_values(ascending=True).index\<close>: the keys whose mean is a number, by
  ascending mean, then the keys whose mean is NaN. Equal means stay in the order of the
  groups here; the sort of numpy promises no order for them, and no general theorem
  below depends on it.
\<close>

fun finite_means :: "(cell \<times> 'm option) list \<Rightarrow> (cell \<times> 'm) list" where
  "finite_means [] = []"
| "finite_means ((k, Some m) # s) = (k, m) # finite_means s"
| "finite_means ((k, None) # s) = finite_means s"

fun nan_keys :: "(cell \<times> 'm option) list \<Rightarrow> cell list" where
  "nan_keys [] = []"
| "nan_keys ((k, Some m) # s) = nan_keys s"
| "nan_keys ((k, None) # s) = k # nan_keys s"

definition sort_values_index :: "(cell \<times> ('m::linorder) option) list \<Rightarrow> cell list" where
  "sort_values_index s = map fst (sort_key snd (finite_means s)) @ nan_keys s"

text \<open>\<^verbatim>\<open>{k: i for i, k in enumerate(t, 0)}\<close>\<close>

definition dict_of_enumerate :: "cell list \<Rightarrow> mapping" where
  "dict_of_enumerate t = fold (\<lambda>p d. AList.update (snd p) (fst p) d) (List.enumerate 0 t) []"

subsection \<open>float64 arithmetic\<close>

text \<open>
  Rounding of a rational to the nearest float64, ties to even: the number is scaled by
  powers of two until its significand \<open>p / q\<close> lies between \<open>2^52\<close> and \<open>2^53\<close>, the
  significand is rounded to an integer, and the scale \<open>a / b\<close> is put back. The range
  of the exponent is not limited (no overflow to infinity, no subnormal numbers).
\<close>

definition round_half_even :: "int \<Rightarrow> int \<Rightarrow> int" where
  "round_half_even p q =
     (let f = p div q; r = p mod q
      in if 2 * r < q then f else if q < 2 * r then f + 1 else if even f then f else f + 1)"

function scale_down :: "int \<Rightarrow> int \<Rightarrow> int \<Rightarrow> int \<Rightarrow> int \<times> int \<times> int \<times> int" where
  "scale_down p q a b =
     (if q \<le> 0 \<or> p < 9007199254740992 * q then (p, q, a, b)
      else scale_down p (2 * q) (2 * a) b)"
  by pat_completeness auto
termination
  by (relation "measure (\<lambda>(p, q, a, b). nat (p - 9007199254740992 * q + 1))") auto

function scale_up :: "int \<Rightarrow> int \<Rightarrow> int \<Rightarrow> int \<Rightarrow> int \<times> int \<times> int \<times> int" where
  "scale_up p q a b =
     (if p \<le> 0 \<or> q \<le> 0 \<or> 4503599627370496 * q \<le> p then (p, q, a, b)
      else scale_up (2 * p) q a (2 * b))"
  by pat_completeness auto
termination
  by (relation "measure (\<lambda>(p, q, a, b). nat (4503599627370496 * q - p))") auto

definition round64 :: "rat \<Rightarrow> rat" where
  "round64 x =
     (if x = 0 then 0
      else
        let (p, q) = quotient_of \<bar>x\<bar>;
            (p1, q1, a1, b1) = scale_down p q 1 1;
            (p2, q2, a2, b2) = scale_up p1 q1 a1 b1
        in sgn x * (of_int (round_half_even p2 q2 * a2) / of_int b2))"

text \<open>
  A float64 mean: the values are converted to float64 and added from first to last, the
  sum is divided by their number, and every operation rounds. The mean of no value is
  NaN. For a group of one value this is the value rounded to float64, whatever the order
  of summation.
\<close>

definition float64_mean :: "rat list \<Rightarrow> rat option" where
  "float64_mean rs =
     (if rs = [] then None
      else Some (round64 (foldl (\<lambda>s r. round64 (s + round64 r)) 0 rs / of_nat (length rs))))"

subsection \<open>The collaborators outside the source file\<close>

definition is_column :: "frame \<Rightarrow> string \<Rightarrow> bool" where
  "is_column X var = (case select X var of Inl _ \<Rightarrow> False | Inr _ \<Rightarrow> True)"

definition contains_na :: "frame \<Rightarrow> string \<Rightarrow> bool" where
  "contains_na X var = (case select X var of Inl _ \<Rightarrow> False | Inr cs \<Rightarrow> NaN \<in> set cs)"

definition is_dataframe :: "frame \<Rightarrow> bool" where
  "is_dataframe X = (\<forall>c \<in> set X. length (snd c) = nrows X)"

text \<open>
  Modelled from the spec: \<^verbatim>\<open>BaseCategoricalTransformer._check_fit_input_and_variables\<close>
  is not in the source file. By sections 4.1 and 6 of the specification it rejects an
  input that is not tabular (here: columns of unequal length), resolves the columns to
  encode to all categorical columns of \<open>X\<close> when none were configured, requires the
  configured columns to exist in \<open>X\<close> (here: each can be looked up by its label) and to
  hold no missing value. Which columns are categorical is the parameter
  \<open>find_categorical\<close>. It returns the input unchanged, and the encoder with
  its columns resolved.
\<close>

definition check_fit_input_and_variables ::
    "(frame \<Rightarrow> string list) \<Rightarrow> encoder \<Rightarrow> frame \<Rightarrow> error + encoder" where
  "check_fit_input_and_variables find_categorical self X =
     (if \<not> is_dataframe X then Inl TypeError_not_a_dataframe
      else
        let vs = (case variables self of None \<Rightarrow> find_categorical X | Some vs \<Rightarrow> vs)
        in case filter (\<lambda>v. \<not> is_column X v) vs of
             v # _ \<Rightarrow> Inl (KeyError v)
           | [] \<Rightarrow>
               if \<exists>v \<in> set vs. contains_na X v then Inl ValueError_contains_na
               else Inr (self\<lparr>variables := Some vs\<rparr>))"

text \<open>
  Modelled from the spec: \<^verbatim>\<open>BaseCategoricalTransformer._check_encoding_dictionary\<close>
  is not in the source file. By section 4.4 of the specification, for every configured
  column its mapping must be non-empty and have no duplicate codes.
\<close>

definition check_encoding_dictionary :: "encoder \<Rightarrow> error option" where
  "check_encoding_dictionary self =
     (case (variables self, encoder_dict self) of
        (Some vs, Some d) \<Rightarrow>
          if \<forall>v \<in> set vs. case map_of d v of
                              None \<Rightarrow> False
                            | Some m \<Rightarrow> m \<noteq> [] \<and> distinct (map snd m)
          then None else Some ValueError_encoding_dictionary
      | _ \<Rightarrow> Some ValueError_encoding_dictionary)"

subsection \<open>The constructor\<close>

text \<open>
  \<^verbatim>\<open>_check_input_parameter_variables\<close> is imported from another module and is the
  parameter \<open>check_input_parameter_variables\<close>.
\<close>

definition OrdinalEncoder ::
    "(string list option \<Rightarrow> error + string list option) \<Rightarrow> string \<Rightarrow> string list option
      \<Rightarrow> error + encoder" where
  "OrdinalEncoder check_input_parameter_variables method vars =
     (if method \<notin> set [''ordered'', ''arbitrary''] then Inl ValueError_encoding_method
      else case check_input_parameter_variables vars of
             Inl e \<Rightarrow> Inl e
           | Inr vs \<Rightarrow>
               Inr \<lparr>encoding_method = method, variables = vs,
                    encoder_dict = None, input_shape = None\<rparr>)"

subsection \<open>fit\<close>

text \<open>
  The body of the loop up to the assignment of \<open>t\<close>. \<open>temp\<close> is bound only in
  ordered mode; with a method that is neither of the two, \<open>t\<close> is unbound at the
  dict comprehension.
\<close>

definition category_index ::
    "(rat list \<Rightarrow> ('m::linorder) option) \<Rightarrow> string \<Rightarrow> frame option \<Rightarrow> frame \<Rightarrow> string
      \<Rightarrow> error + cell list" where
  "category_index group_mean method temp X var =
     (if method = ''ordered'' then
        (case temp of
           None \<Rightarrow> Inl UnboundLocalError
         | Some tmp \<Rightarrow>
             (case select tmp var of
                Inl e \<Rightarrow> Inl e
              | Inr ks \<Rightarrow>
                  (case select tmp ''target'' of
                     Inl e \<Rightarrow> Inl e
                   | Inr ts \<Rightarrow> Inr (sort_values_index (group_means group_mean ks ts)))))
      else if method = ''arbitrary'' then
        (case select X var of Inl e \<Rightarrow> Inl e | Inr cs \<Rightarrow> Inr (unique cs))
      else Inl UnboundLocalError)"

text \<open>
  The loop \<^verbatim>\<open>for var in self.variables\<close>. An exception leaves the object as the
  iterations before it made it, so the state is returned with the error.
\<close>

fun find_mappings ::
    "(rat list \<Rightarrow> ('m::linorder) option) \<Rightarrow> frame option \<Rightarrow> frame \<Rightarrow> string list \<Rightarrow> encoder
      \<Rightarrow> error option \<times> encoder" where
  "find_mappings group_mean temp X [] self = (None, self)"
| "find_mappings group_mean temp X (var # vars) self =
     (case category_index group_mean (encoding_method self) temp X var of
        Inl e \<Rightarrow> (Some e, self)
      | Inr t \<Rightarrow>
          (case encoder_dict self of
             None \<Rightarrow> (Some AttributeError, self)
           | Some d \<Rightarrow>
               find_mappings group_mean temp X vars
                 (self\<lparr>encoder_dict := Some (AList.update var (dict_of_enumerate t) d)\<rparr>)))"

definition join_target :: "encoder \<Rightarrow> frame \<Rightarrow> rat list option \<Rightarrow> error + frame option" where
  "join_target self X y =
     (if encoding_method self = ''ordered'' then
        (case y of
           None \<Rightarrow> Inl ValueError_no_target
         | Some ys \<Rightarrow> Inr (Some (concat_target X ys)))
      else Inr None)"

definition fit ::
    "(frame \<Rightarrow> string list) \<Rightarrow> (rat list \<Rightarrow> ('m::linorder) option) \<Rightarrow> encoder \<Rightarrow> frame
      \<Rightarrow> rat list option \<Rightarrow> error option \<times> encoder" where
  "fit find_categorical group_mean self X y =
     (case check_fit_input_and_variables find_categorical self X of
        Inl e \<Rightarrow> (Some e, self)
      | Inr self1 \<Rightarrow>
          (case join_target self1 X y of
             Inl e \<Rightarrow> (Some e, self1)
           | Inr temp \<Rightarrow>
               (case variables self1 of
                  None \<Rightarrow> (Some TypeError_not_iterable, self1\<lparr>encoder_dict := Some []\<rparr>)
                | Some vs \<Rightarrow>
                    (case find_mappings group_mean temp X vs (self1\<lparr>encoder_dict := Some []\<rparr>) of
                       (Some e, self2) \<Rightarrow> (Some e, self2)
                     | (None, self2) \<Rightarrow>
                         (case check_encoding_dictionary self2 of
                            Some e \<Rightarrow> (Some e, self2)
                          | None \<Rightarrow> (None, self2\<lparr>input_shape := Some (shape X)\<rparr>))))))"

subsection \<open>transform and inverse\_transform\<close>

text \<open>
  Modelled from the spec: \<^verbatim>\<open>transform\<close> and \<^verbatim>\<open>inverse_transform\<close> only call
  \<^verbatim>\<open>BaseCategoricalTransformer.transform\<close> and
  \<^verbatim>\<open>BaseCategoricalTransformer.inverse_transform\<close>, which are not in the source file.
  By sections 4.2, 4.3, 6 and 7 of the specification both fail if fit was never called or
  if the input does not pass the validation, which is the one of fit (a tabular input,
  the configured columns present and free of missing values) and the column count seen
  by fit. Then, for each configured column,
  \<^verbatim>\<open>transform\<close> replaces each cell by the code its category has in that column's
  learned mapping, and by the missing-value marker when the category is not in the
  mapping; \<^verbatim>\<open>inverse_transform\<close> replaces each code by its category in the inverse
  of that mapping, and by the missing-value marker when the code is not among the learned
  codes. An integer code \<open>i\<close> is the cell \<open>Num (of_nat i)\<close>.
\<close>

definition check_transform_input_and_state :: "encoder \<Rightarrow> frame \<Rightarrow> error option" where
  "check_transform_input_and_state self X =
     (case (variables self, encoder_dict self, input_shape self) of
        (Some vs, Some d, Some sh) \<Rightarrow>
          if \<not> is_dataframe X then Some TypeError_not_a_dataframe
          else (case filter (\<lambda>v. \<not> is_column X v) vs of
                  v # _ \<Rightarrow> Some (KeyError v)
                | [] \<Rightarrow>
                    if \<exists>v \<in> set vs. contains_na X v then Some ValueError_contains_na
                    else if length X \<noteq> snd sh then Some ValueError_input_shape
                    else None)
      | _ \<Rightarrow> Some NotFittedError)"

definition encode_cell :: "mapping \<Rightarrow> cell \<Rightarrow> cell" where
  "encode_cell m c = (case map_of m c of None \<Rightarrow> NaN | Some i \<Rightarrow> Num (of_nat i))"

definition inverse_mapping :: "mapping \<Rightarrow> (cell \<times> cell) list" where
  "inverse_mapping m = map (\<lambda>p. (Num (of_nat (snd p)), fst p)) m"

definition decode_cell :: "mapping \<Rightarrow> cell \<Rightarrow> cell" where
  "decode_cell m c = (case map_of (inverse_mapping m) c of None \<Rightarrow> NaN | Some k \<Rightarrow> k)"

definition replace_column :: "frame \<Rightarrow> string \<Rightarrow> (cell \<Rightarrow> cell) \<Rightarrow> frame" where
  "replace_column X var f = map (\<lambda>c. if fst c = var then (fst c, map f (snd c)) else c) X"

fun apply_mappings ::
    "(mapping \<Rightarrow> cell \<Rightarrow> cell) \<Rightarrow> (string \<times> mapping) list \<Rightarrow> string list \<Rightarrow> frame
      \<Rightarrow> error + frame" where
  "apply_mappings conv d [] X = Inr X"
| "apply_mappings conv d (var # vars) X =
     (case map_of d var of
        None \<Rightarrow> Inl (KeyError var)
      | Some m \<Rightarrow> apply_mappings conv d vars (replace_column X var (conv m)))"

definition configured :: "encoder \<Rightarrow> string list" where
  "configured self = (case variables self of None \<Rightarrow> [] | Some vs \<Rightarrow> remdups vs)"

definition learned :: "encoder \<Rightarrow> (string \<times> mapping) list" where
  "learned self = (case encoder_dict self of None \<Rightarrow> [] | Some d \<Rightarrow> d)"

definition transform :: "encoder \<Rightarrow> frame \<Rightarrow> error + frame" where
  "transform self X =
     (case check_transform_input_and_state self X of
        Some e \<Rightarrow> Inl e
      | None \<Rightarrow> apply_mappings encode_cell (learned self) (configured self) X)"

definition inverse_transform :: "encoder \<Rightarrow> frame \<Rightarrow> error + frame" where
  "inverse_transform self X =
     (case check_transform_input_and_state self X of
        Some e \<Rightarrow> Inl e
      | None \<Rightarrow> apply_mappings decode_cell (learned self) (configured self) X)"

subsection \<open>Notions used to state the properties\<close>

text \<open>
  \<^verbatim>\<open>encoder_dict_[var][a]\<close>: the code a fitted encoder gives to category \<open>a\<close> of
  column \<open>var\<close>, if any.
\<close>

definition code :: "encoder \<Rightarrow> string \<Rightarrow> cell \<Rightarrow> nat option" where
  "code self var a =
     (case encoder_dict self of
        None \<Rightarrow> None
      | Some d \<Rightarrow> (case map_of d var of None \<Rightarrow> None | Some m \<Rightarrow> map_of m a))"

text \<open>
  The target values of the rows of a column that hold category \<open>a\<close>, for a target
  aligned with the column, and their arithmetic mean as the specification words it: the
  exact quotient of their sum by their number.
\<close>

definition target_values :: "cell list \<Rightarrow> rat list \<Rightarrow> cell \<Rightarrow> rat list" where
  "target_values col y a = map snd (filter (\<lambda>p. fst p = a) (zip col y))"

definition target_mean :: "cell list \<Rightarrow> rat list \<Rightarrow> cell \<Rightarrow> rat" where
  "target_mean col y a = sum_list (target_values col y a) / of_nat (length (target_values col y a))"


subsection \<open>The inputs of the scenarios\<close>

text \<open>
  The column and the target of the scenarios of the specification, an encoder configured
  for that column, a frame that also has a feature column labelled \<^verbatim>\<open>target\<close>, a
  frame of two categorical columns with an encoder configured for both, and a column
  whose target values cancel in float64.
\<close>

definition colour :: "cell list" where
  "colour = [Str ''blue'', Str ''red'', Str ''grey'', Str ''blue'', Str ''red'', Str ''red'']"

definition colour_target :: "rat list" where
  "colour_target = [5 / 10, 8 / 10, 1 / 10, 6 / 10, 9 / 10, 7 / 10]"

definition colour_frame :: frame where
  "colour_frame = [(''colour'', colour)]"

definition colour_encoder :: "string \<Rightarrow> encoder" where
  "colour_encoder method =
     \<lparr>encoding_method = method, variables = Some [''colour''],
      encoder_dict = None, input_shape = None\<rparr>"

definition no_categorical :: "frame \<Rightarrow> string list" where
  "no_categorical X = []"

definition ordered_colour_encoder :: encoder where
  "ordered_colour_encoder =
     \<lparr>encoding_method = ''ordered'', variables = Some [''colour''],
      encoder_dict = Some [(''colour'', [(Str ''grey'', 0), (Str ''blue'', 1), (Str ''red'', 2)])],
      input_shape = Some (6, 1)\<rparr>"

definition arbitrary_colour_encoder :: encoder where
  "arbitrary_colour_encoder =
     \<lparr>encoding_method = ''arbitrary'', variables = Some [''colour''],
      encoder_dict = Some [(''colour'', [(Str ''blue'', 0), (Str ''red'', 1), (Str ''grey'', 2)])],
      input_shape = Some (6, 1)\<rparr>"

definition frame_with_target_column :: frame where
  "frame_with_target_column =
     [(''colour'', colour), (''target'', [Num 1, Num 0, Num 1, Num 0, Num 1, Num 0])]"

definition size_column :: "cell list" where
  "size_column = [Str ''S'', Str ''M'', Str ''S'', Str ''L'', Str ''M'', Str ''S'']"

definition two_column_frame :: frame where
  "two_column_frame = [(''colour'', colour), (''size'', size_column)]"

definition two_column_encoder :: encoder where
  "two_column_encoder =
     \<lparr>encoding_method = ''arbitrary'', variables = Some [''colour'', ''size''],
      encoder_dict = None, input_shape = None\<rparr>"

definition fitted_two_column_encoder :: encoder where
  "fitted_two_column_encoder =
     \<lparr>encoding_method = ''arbitrary'', variables = Some [''colour'', ''size''],
      encoder_dict = Some [(''colour'', [(Str ''blue'', 0), (Str ''red'', 1), (Str ''grey'', 2)]),
                           (''size'', [(Str ''S'', 0), (Str ''M'', 1), (Str ''L'', 2)])],
      input_shape = Some (6, 2)\<rparr>"

definition mixed_row :: frame where
  "mixed_row = [(''colour'', [Str ''blue'']), (''size'', [Str ''XL''])]"

definition seen_rows :: frame where
  "seen_rows = [(''colour'', [Str ''grey'', Str ''blue'']), (''size'', [Str ''L'', Str ''S''])]"


definition cancel_column :: "cell list" where
  "cancel_column = [Str ''a'', Str ''a'', Str ''a'', Str ''b'']"

definition cancel_target :: "rat list" where
  "cancel_target = [10 ^ 16, 1, - (10 ^ 16), 1 / 4]"

definition cancel_frame :: frame where
  "cancel_frame = [(''c'', cancel_column)]"

definition cancel_encoder :: encoder where
  "cancel_encoder =
     \<lparr>encoding_method = ''ordered'', variables = Some [''c''],
      encoder_dict = None, input_shape = None\<rparr>"

definition green_frame :: frame where
  "green_frame = [(''colour'', [Str ''blue'', Str ''green'', Str ''red''])]"

definition code_frame :: frame where
  "code_frame = [(''colour'', [Num 1, Num 7, Num 0])]"

section \<open>Facts about the operations\<close>

subsection \<open>First-appearance order and enumeration\<close>

lemma set_fold_seen: "set (fold (\<lambda>x seen. if x \<in> set seen then seen else seen @ [x]) xs acc) = set acc \<union> set xs"
  by (induction xs arbitrary: acc) auto
lemma distinct_fold_seen: "distinct acc \<Longrightarrow> distinct (fold (\<lambda>x seen. if x \<in> set seen then seen else seen @ [x]) xs acc)"
  by (induction xs arbitrary: acc) auto

lemma set_unique: "set (unique xs) = set xs" by (simp add: unique_def set_fold_seen)
lemma distinct_unique: "distinct (unique xs)" by (simp add: unique_def distinct_fold_seen)



text \<open>The dict comprehension over a list without repetitions numbers it from 0.\<close>

lemma update_fresh: "k \<notin> fst ` set al \<Longrightarrow> AList.update k v al = al @ [(k, v)]"
  by (induction al) auto

lemma fold_update_enumerate:
  "distinct t \<Longrightarrow> set t \<inter> fst ` set acc = {} \<Longrightarrow>
   fold (\<lambda>p d. AList.update (snd p) (fst p) d) (List.enumerate n t) acc
     = acc @ zip t [n ..< n + length t]"
proof (induction t arbitrary: n acc)
  case Nil then show ?case by simp
next
  case (Cons k t)
  have fresh: "k \<notin> fst ` set acc" using Cons.prems(2) by auto
  have disj: "set t \<inter> fst ` set (acc @ [(k, n)]) = {}" using Cons.prems by auto
  have d: "distinct t" using Cons.prems(1) by simp
  have u: "[n ..< n + length (k # t)] = n # [Suc n ..< Suc n + length t]"
    by (subst upt_rec) (simp del: upt_Suc)
  show ?case
    unfolding u using Cons.IH [OF d disj, of "Suc n"]
    by (simp add: update_fresh [OF fresh] del: upt_Suc)
qed

lemma dict_of_enumerate_distinct:
  "distinct t \<Longrightarrow> dict_of_enumerate t = zip t [0 ..< length t]"
  using fold_update_enumerate [of t "[]" 0] by (simp add: dict_of_enumerate_def)

lemma map_of_zip_upt:
  "distinct t \<Longrightarrow> i < length t \<Longrightarrow> map_of (zip t [0 ..< length t]) (t ! i) = Some i"
  by (metis (no_types) add.left_neutral diff_zero length_upt map_of_zip_nth nth_upt)

subsection \<open>Grouping, means and sorting\<close>

lemma set_group_keys: "set (group_keys ks) = set ks - {NaN}"
  by (auto simp: group_keys_def)

lemma distinct_group_keys: "distinct (group_keys ks)"
  by (simp add: group_keys_def)

lemma map_fst_group_means: "map fst (group_means gm ks ts) = group_keys ks"
  by (simp add: group_means_def comp_def)

lemma finite_means_iff: "(k, m) \<in> set (finite_means s) \<longleftrightarrow> (k, Some m) \<in> set s"
  by (induction s rule: finite_means.induct) auto

lemma nan_keys_iff: "k \<in> set (nan_keys s) \<longleftrightarrow> (k, None) \<in> set s"
  by (induction s rule: nan_keys.induct) auto

lemma fst_finite_means: "k \<in> fst ` set (finite_means s) \<Longrightarrow> k \<in> fst ` set s"
  by (force simp: finite_means_iff)

lemma nan_keys_fst: "k \<in> set (nan_keys s) \<Longrightarrow> k \<in> fst ` set s"
  by (force simp: nan_keys_iff)

lemma distinct_finite_nan:
  "distinct (map fst s) \<Longrightarrow> distinct (map fst (finite_means s) @ nan_keys s)"
proof (induction s rule: finite_means.induct)
  case 1 then show ?case by simp
next
  case (2 k m s)
  then show ?case using fst_finite_means [of k s] nan_keys_fst [of k s] by auto
next
  case (3 k s)
  then show ?case using fst_finite_means [of k s] nan_keys_fst [of k s] by auto
qed

lemma set_finite_nan: "fst ` set (finite_means s) \<union> set (nan_keys s) = fst ` set s"
  by (induction s rule: finite_means.induct) auto

lemma set_sort_values_index_pairs: "set (sort_values_index s) = fst ` set s"
  using set_finite_nan [of s] by (simp add: sort_values_index_def)

lemma distinct_sort_values_index_pairs:
  assumes "distinct (map fst s)"
  shows "distinct (sort_values_index s)"
proof -
  let ?F = "finite_means s"
  from distinct_finite_nan [OF assms] have d: "distinct (map fst ?F)"
    "set (map fst ?F) \<inter> set (nan_keys s) = {}" "distinct (nan_keys s)"
    by simp_all
  from d(1) have "distinct ?F" "inj_on fst (set ?F)" by (simp_all add: distinct_map)
  then have "distinct (map fst (sort_key snd ?F))" by (simp add: distinct_map)
  with d(2,3) show ?thesis by (simp add: sort_values_index_def)
qed

lemma set_sort_values_index: "set (sort_values_index (group_means gm ks ts)) = set ks - {NaN}"
  using map_fst_group_means [of gm ks ts] set_group_keys [of ks]
  by (metis set_sort_values_index_pairs set_map)

lemma distinct_sort_values_index: "distinct (sort_values_index (group_means gm ks ts))"
  by (rule distinct_sort_values_index_pairs) (simp add: map_fst_group_means distinct_group_keys)

lemma sorted_nth_less:
  fixes f :: "'a \<Rightarrow> 'b::linorder"
  assumes "sorted (map f t)" and "i < length t" and "j < length t" and "f (t ! i) < f (t ! j)"
  shows "i < j"
proof (rule ccontr)
  assume "\<not> i < j"
  then have "j \<le> i" by simp
  with assms(1,2) have "map f t ! j \<le> map f t ! i"
    by (simp add: sorted_iff_nth_mono)
  with assms(2,3,4) show False by simp
qed

text \<open>A key with a smaller mean stands before a key with a larger mean.\<close>

lemma sort_values_index_less:
  assumes a: "(a, Some ma) \<in> set s" and b: "(b, Some mb) \<in> set s" and lt: "ma < mb"
  shows "\<exists>i j. i < j \<and> j < length (sort_values_index s)
           \<and> sort_values_index s ! i = a \<and> sort_values_index s ! j = b"
proof -
  let ?F = "sort_key snd (finite_means s)"
  from a have "(a, ma) \<in> set ?F" by (simp add: finite_means_iff)
  then obtain i where i: "i < length ?F" "?F ! i = (a, ma)" by (metis in_set_conv_nth)
  from b have "(b, mb) \<in> set ?F" by (simp add: finite_means_iff)
  then obtain j where j: "j < length ?F" "?F ! j = (b, mb)" by (metis in_set_conv_nth)
  have srt: "sorted (map snd ?F)" by (rule sorted_sort_key)
  have "snd (?F ! i) < snd (?F ! j)" using i(2) j(2) lt by simp
  from sorted_nth_less [OF srt i(1) j(1) this] have ij: "i < j" .
  have "sort_values_index s ! i = a" "sort_values_index s ! j = b"
    using i j by (simp_all add: sort_values_index_def nth_append)
  moreover have "j < length (sort_values_index s)"
    using j(1) by (simp add: sort_values_index_def)
  ultimately show ?thesis using ij by blast
qed

lemma numbers_aligned:
  "numbers (map snd (filter (\<lambda>p. fst p = a) (zip col (map Num y))))
     = map snd (filter (\<lambda>p. fst p = a) (zip col y))"
proof (induction col arbitrary: y)
  case Nil then show ?case by simp
next
  case (Cons c col)
  then show ?case by (cases y) auto
qed

lemma group_values_aligned: "group_values col (map Num y) a = target_values col y a"
  by (simp add: group_values_def target_values_def numbers_aligned)

lemma pad_id: "n \<le> length cs \<Longrightarrow> pad n cs = cs"
  by (simp add: pad_def)

lemma set_pad: "set (pad n cs) - {NaN} = set cs - {NaN}"
  by (auto simp: pad_def)

lemma filter_concat_target:
  "filter (\<lambda>c. fst c = v) (concat_target X y) =
     map (\<lambda>c. (fst c, pad (max (nrows X) (length y)) (snd c))) (filter (\<lambda>c. fst c = v) X)
       @ (if v = ''target'' then [(''target'', pad (max (nrows X) (length y)) (map Num y))] else [])"
  by (simp add: concat_target_def Let_def filter_map comp_def)

lemma select_Inr_iff:
  "select X v = Inr col \<longleftrightarrow> (\<exists>c. filter (\<lambda>c. fst c = v) X = [c] \<and> col = snd c)"
  by (auto simp: select_def split: list.splits)

lemma select_in_columns: "select X v = Inr col \<Longrightarrow> (v, col) \<in> set X"
proof -
  assume "select X v = Inr col"
  then obtain c where c: "filter (\<lambda>c. fst c = v) X = [c]" "col = snd c"
    by (auto simp: select_Inr_iff)
  then have "c \<in> set (filter (\<lambda>c. fst c = v) X)" by simp
  then have "c \<in> set X" "fst c = v" by auto
  with c show ?thesis by (metis prod.collapse)
qed

lemma select_target_concat:
  "select (concat_target X y) ''target'' = Inr ts \<Longrightarrow>
     ''target'' \<notin> fst ` set X \<and> ts = pad (max (nrows X) (length y)) (map Num y)"
  by (auto simp: select_Inr_iff filter_concat_target append_eq_Cons_conv filter_empty_conv)

lemma select_var_concat:
  "select X v = Inr col \<Longrightarrow> ''target'' \<notin> fst ` set X \<Longrightarrow>
     select (concat_target X y) v = Inr (pad (max (nrows X) (length y)) col)"
proof -
  assume sel: "select X v = Inr col" and nt: "''target'' \<notin> fst ` set X"
  from select_in_columns [OF sel] have "v \<in> fst ` set X" by force
  with nt have "v \<noteq> ''target''" by blast
  with sel show ?thesis
    by (auto simp: select_Inr_iff filter_concat_target)
qed

subsection \<open>What a successful fit has done\<close>

lemma check_fit_input_and_variables_Inr:
  assumes "check_fit_input_and_variables fc self X = Inr self1"
  shows "self1 = self\<lparr>variables := Some (case variables self of None \<Rightarrow> fc X | Some vs \<Rightarrow> vs)\<rparr>"
    and "is_dataframe X"
    and "\<forall>v \<in> set (case variables self of None \<Rightarrow> fc X | Some vs \<Rightarrow> vs).
           is_column X v \<and> \<not> contains_na X v"
  using assms
  by (auto simp: check_fit_input_and_variables_def Let_def filter_empty_conv
           split: if_splits list.splits)

lemma find_mappings_fields:
  "find_mappings gm temp X vs self = (r, self') \<Longrightarrow>
     encoding_method self' = encoding_method self \<and> variables self' = variables self
       \<and> input_shape self' = input_shape self"
proof (induction vs arbitrary: self)
  case Nil then show ?case by simp
next
  case (Cons var vars)
  then show ?case
    by (fastforce split: sum.splits option.splits)
qed

lemma find_mappings_None:
  assumes "find_mappings gm temp X vs self = (None, self')" and "encoder_dict self = Some d0"
  shows "\<exists>d. encoder_dict self' = Some d
           \<and> fst ` set d = fst ` set d0 \<union> set vs
           \<and> (distinct (map fst d0) \<longrightarrow> distinct (map fst d))
           \<and> (\<forall>k. k \<notin> set vs \<longrightarrow> map_of d k = map_of d0 k)
           \<and> (\<forall>v \<in> set vs. \<exists>t. category_index gm (encoding_method self) temp X v = Inr t
                  \<and> map_of d v = Some (dict_of_enumerate t))"
  using assms
proof (induction vs arbitrary: self d0)
  case Nil then show ?case by simp
next
  case (Cons var vars)
  from Cons.prems obtain t where t: "category_index gm (encoding_method self) temp X var = Inr t"
    by (auto split: sum.splits)
  let ?d1 = "AList.update var (dict_of_enumerate t) d0"
  let ?self1 = "self\<lparr>encoder_dict := Some ?d1\<rparr>"
  from Cons.prems t have run: "find_mappings gm temp X vars ?self1 = (None, self')" by simp
  have d1: "encoder_dict ?self1 = Some ?d1" by simp
  from Cons.IH [OF run d1] obtain d where d:
    "encoder_dict self' = Some d"
    "fst ` set d = fst ` set ?d1 \<union> set vars"
    "distinct (map fst ?d1) \<longrightarrow> distinct (map fst d)"
    "\<forall>k. k \<notin> set vars \<longrightarrow> map_of d k = map_of ?d1 k"
    "\<forall>v \<in> set vars. \<exists>t. category_index gm (encoding_method self) temp X v = Inr t
                  \<and> map_of d v = Some (dict_of_enumerate t)"
    by auto
  have "fst ` set d = fst ` set d0 \<union> set (var # vars)"
    using d(2) by (auto simp: AList.dom_update)
  moreover have "distinct (map fst d0) \<longrightarrow> distinct (map fst d)"
    using d(3) by (simp add: AList.distinct_update)
  moreover have "\<forall>k. k \<notin> set (var # vars) \<longrightarrow> map_of d k = map_of d0 k"
    using d(4) by (simp add: AList.update_conv')
  moreover have "\<forall>v \<in> set (var # vars). \<exists>t. category_index gm (encoding_method self) temp X v = Inr t
                  \<and> map_of d v = Some (dict_of_enumerate t)"
  proof
    fix v assume v: "v \<in> set (var # vars)"
    show "\<exists>t. category_index gm (encoding_method self) temp X v = Inr t
                  \<and> map_of d v = Some (dict_of_enumerate t)"
    proof (cases "v \<in> set vars")
      case True with d(5) show ?thesis by blast
    next
      case False
      with v have "v = var" by simp
      with False d(4) t show ?thesis by (simp add: AList.update_conv')
    qed
  qed
  ultimately show ?case using d(1) by blast
qed

lemma join_target_method:
  "join_target (self\<lparr>variables := vs\<rparr>) X y = join_target self X y"
  by (simp add: join_target_def)

lemma fit_None:
  assumes "fit fc gm self X y = (None, self')"
  shows "\<exists>vs temp d.
           vs = (case variables self of None \<Rightarrow> fc X | Some vs \<Rightarrow> vs)
         \<and> variables self' = Some vs
         \<and> encoding_method self' = encoding_method self
         \<and> encoder_dict self' = Some d
         \<and> input_shape self' = Some (shape X)
         \<and> join_target self X y = Inr temp
         \<and> is_dataframe X
         \<and> (\<forall>v \<in> set vs. is_column X v \<and> \<not> contains_na X v)
         \<and> distinct (map fst d)
         \<and> fst ` set d = set vs
         \<and> (\<forall>v \<in> set vs. \<exists>t. category_index gm (encoding_method self) temp X v = Inr t
                \<and> map_of d v = Some (dict_of_enumerate t))
         \<and> check_encoding_dictionary self' = None"
proof -
  let ?vs = "case variables self of None \<Rightarrow> fc X | Some vs \<Rightarrow> vs"
  let ?self1 = "self\<lparr>variables := Some ?vs\<rparr>"
  from assms obtain self1 where c: "check_fit_input_and_variables fc self X = Inr self1"
    by (auto simp: fit_def split: sum.splits)
  note v = check_fit_input_and_variables_Inr [OF c]
  from assms c v(1) obtain temp where j: "join_target ?self1 X y = Inr temp"
    by (auto simp: fit_def split: sum.splits)
  from assms c v(1) j obtain self2 where
    run: "find_mappings gm temp X ?vs (?self1\<lparr>encoder_dict := Some []\<rparr>) = (None, self2)"
    and chk: "check_encoding_dictionary self2 = None"
    and res: "self' = self2\<lparr>input_shape := Some (shape X)\<rparr>"
    by (auto simp: fit_def split: sum.splits option.splits prod.splits)
  have e: "encoder_dict (?self1\<lparr>encoder_dict := Some []\<rparr>) = Some []" by simp
  from find_mappings_None [OF run e] obtain d where d:
    "encoder_dict self2 = Some d" "fst ` set d = set ?vs" "distinct (map fst d)"
    "\<forall>v \<in> set ?vs. \<exists>t. category_index gm (encoding_method self) temp X v = Inr t
                  \<and> map_of d v = Some (dict_of_enumerate t)"
    by auto
  from find_mappings_fields [OF run] have f:
    "encoding_method self2 = encoding_method self" "variables self2 = Some ?vs"
    by simp_all
  have chk': "check_encoding_dictionary self' = None"
    using chk res by (simp add: check_encoding_dictionary_def)
  show ?thesis
    using v(2,3) j d f res chk' by (simp add: join_target_method)
qed

lemma category_index_keys:
  assumes t: "category_index gm (encoding_method self) temp X v = Inr t"
    and j: "join_target self X y = Inr temp"
    and col: "select X v = Inr col"
    and na: "NaN \<notin> set col"
  shows "distinct t \<and> set t = set col"
proof (cases "encoding_method self = ''ordered''")
  case True
  with j obtain ys where ys: "y = Some ys" "temp = Some (concat_target X ys)"
    by (auto simp: join_target_def split: option.splits)
  let ?n = "max (nrows X) (length ys)"
  from t True ys obtain ks ts where
    k: "select (concat_target X ys) v = Inr ks"
    and ts: "select (concat_target X ys) ''target'' = Inr ts"
    and tt: "t = sort_values_index (group_means gm ks ts)"
    by (auto simp: category_index_def split: sum.splits)
  from select_target_concat [OF ts] have nt: "''target'' \<notin> fst ` set X" by simp
  from select_var_concat [OF col nt, of ys] k have "ks = pad ?n col" by simp
  then have "set t = set col - {NaN}"
    unfolding tt by (simp add: set_sort_values_index set_pad)
  with na show ?thesis unfolding tt by (simp add: distinct_sort_values_index)
next
  case False
  with t col have "t = unique col"
    by (auto simp: category_index_def split: if_splits sum.splits)
  then show ?thesis by (simp add: set_unique distinct_unique)
qed

text \<open>The two scenarios of the specification, evaluated.\<close>

lemma contains_na_select: "select X v = Inr col \<Longrightarrow> contains_na X v = (NaN \<in> set col)"
  by (simp add: contains_na_def)

lemma is_column_select: "is_column X v \<Longrightarrow> \<exists>col. select X v = Inr col"
  by (auto simp: is_column_def split: sum.splits)

lemma set_configured: "variables self = Some vs \<Longrightarrow> set (configured self) = set vs"
  by (simp add: configured_def)

lemma fit_mapping:
  assumes f: "fit fc gm self X y = (None, self')"
    and v: "v \<in> set (configured self')"
    and col: "select X v = Inr col"
  shows "\<exists>temp t. join_target self X y = Inr temp
           \<and> category_index gm (encoding_method self) temp X v = Inr t
           \<and> distinct t \<and> set t = set col \<and> NaN \<notin> set col \<and> length col = nrows X
           \<and> code self' v = map_of (zip t [0 ..< length t])"
proof -
  from fit_None [OF f] obtain vs temp d where r:
    "variables self' = Some vs" "encoder_dict self' = Some d"
    "join_target self X y = Inr temp" "is_dataframe X"
    "\<forall>v \<in> set vs. is_column X v \<and> \<not> contains_na X v"
    "\<forall>v \<in> set vs. \<exists>t. category_index gm (encoding_method self) temp X v = Inr t
                \<and> map_of d v = Some (dict_of_enumerate t)"
    by blast
  from v r(1) have vv: "v \<in> set vs" by (simp add: set_configured)
  with r(6) obtain t where t: "category_index gm (encoding_method self) temp X v = Inr t"
    "map_of d v = Some (dict_of_enumerate t)" by blast
  from vv r(5) have "\<not> contains_na X v" by blast
  with col have na: "NaN \<notin> set col" by (simp add: contains_na_select)
  from category_index_keys [OF t(1) r(3) col na] have k: "distinct t" "set t = set col" by simp_all
  from select_in_columns [OF col] r(4) have len: "length col = nrows X"
    by (auto simp: is_dataframe_def)
  have "code self' v = map_of (zip t [0 ..< length t])"
    using r(2) t(2) k(1) by (auto simp: code_def dict_of_enumerate_distinct)
  with r(3) t(1) k na len show ?thesis by blast
qed

section \<open>The claims\<close>

text \<open>
  Claim C3. After a successful fit, in either mode, every configured column has exactly
  one entry in \<^verbatim>\<open>encoder_dict_\<close> (the keys of the dict are distinct and are the
  configured columns), and the mapping of a column has the distinct values of that
  column of \<open>X\<close> as keys, each once, with the codes \<open>0, 1, ..., k - 1\<close> in this order,
  \<open>k\<close> being the number of distinct values of the column.
\<close>

theorem fit_codes_dense:
  assumes "fit fc gm self X y = (None, self')"
  shows "\<exists>vs d. variables self' = Some vs \<and> encoder_dict self' = Some d
           \<and> distinct (map fst d) \<and> set (map fst d) = set vs
           \<and> (\<forall>v \<in> set vs. \<exists>col m. select X v = Inr col \<and> map_of d v = Some m
                 \<and> distinct (map fst m) \<and> set (map fst m) = set col
                 \<and> map snd m = [0 ..< card (set col)])"
proof -
  from fit_None [OF assms] obtain vs temp d where r:
    "variables self' = Some vs" "encoder_dict self' = Some d"
    "join_target self X y = Inr temp"
    "\<forall>v \<in> set vs. is_column X v \<and> \<not> contains_na X v"
    "distinct (map fst d)" "fst ` set d = set vs"
    "\<forall>v \<in> set vs. \<exists>t. category_index gm (encoding_method self) temp X v = Inr t
                \<and> map_of d v = Some (dict_of_enumerate t)"
    by blast
  have "\<exists>col m. select X v = Inr col \<and> map_of d v = Some m
                 \<and> distinct (map fst m) \<and> set (map fst m) = set col
                 \<and> map snd m = [0 ..< card (set col)]" if v: "v \<in> set vs" for v
  proof -
    from v r(4) obtain col where col: "select X v = Inr col" "NaN \<notin> set col"
      using is_column_select contains_na_select by blast
    from v r(7) obtain t where t: "category_index gm (encoding_method self) temp X v = Inr t"
      "map_of d v = Some (dict_of_enumerate t)" by blast
    from category_index_keys [OF t(1) r(3) col] have k: "distinct t" "set t = set col"
      by simp_all
    then have len: "length t = card (set col)" using distinct_card by fastforce
    have z: "map fst (zip t [0 ..< length t]) = t" "map snd (zip t [0 ..< length t]) = [0 ..< length t]"
      by simp_all
    have m: "map_of d v = Some (zip t [0 ..< length t])"
      using t(2) k(1) by (simp add: dict_of_enumerate_distinct)
    show ?thesis
      using col(1) m z k len by (metis (no_types))
  qed
  with r(1,2,5,6) show ?thesis by simp
qed

theorem fit_codes_dense_witness:
  "fit no_categorical float64_mean (colour_encoder ''ordered'') colour_frame (Some colour_target)
     = (None, ordered_colour_encoder)
   \<and> fit no_categorical float64_mean two_column_encoder two_column_frame None
       = (None, fitted_two_column_encoder)
   \<and> (\<exists>vs d. variables ordered_colour_encoder = Some vs
         \<and> encoder_dict ordered_colour_encoder = Some d
         \<and> distinct (map fst d) \<and> set (map fst d) = set vs
         \<and> (\<forall>v \<in> set vs. \<exists>col m. select colour_frame v = Inr col \<and> map_of d v = Some m
               \<and> distinct (map fst m) \<and> set (map fst m) = set col
               \<and> map snd m = [0 ..< card (set col)]))
   \<and> (\<exists>vs d. variables fitted_two_column_encoder = Some vs
         \<and> encoder_dict fitted_two_column_encoder = Some d
         \<and> distinct (map fst d) \<and> set (map fst d) = set vs
         \<and> (\<forall>v \<in> set vs. \<exists>col m. select two_column_frame v = Inr col \<and> map_of d v = Some m
               \<and> distinct (map fst m) \<and> set (map fst m) = set col
               \<and> map snd m = [0 ..< card (set col)]))
   \<and> encoder_dict fitted_two_column_encoder
       = Some [(''colour'', [(Str ''blue'', 0), (Str ''red'', 1), (Str ''grey'', 2)]),
               (''size'', [(Str ''S'', 0), (Str ''M'', 1), (Str ''L'', 2)])]
   \<and> card (set colour) = 3 \<and> card (set size_column) = 3"
proof -
  have h1: "fit no_categorical float64_mean (colour_encoder ''ordered'') colour_frame (Some colour_target)
     = (None, ordered_colour_encoder)"
    by code_simp
  have h2: "fit no_categorical float64_mean two_column_encoder two_column_frame None
       = (None, fitted_two_column_encoder)"
    by code_simp
  have e: "encoder_dict fitted_two_column_encoder
       = Some [(''colour'', [(Str ''blue'', 0), (Str ''red'', 1), (Str ''grey'', 2)]),
               (''size'', [(Str ''S'', 0), (Str ''M'', 1), (Str ''L'', 2)])]"
    by code_simp
  have c: "card (set colour) = 3" "card (set size_column) = 3" by code_simp+
  from fit_codes_dense [OF h1] fit_codes_dense [OF h2] h1 h2 e c show ?thesis by blast
qed

text \<open>Ordered mode: a smaller computed mean is sorted before a larger one.\<close>

lemma ordered_code_less:
  assumes f: "fit fc gm self X (Some y) = (None, self')"
    and m: "encoding_method self = ''ordered''"
    and al: "length y = nrows X"
    and v: "v \<in> set (configured self')"
    and col: "select X v = Inr col"
    and a: "a \<in> set col" and b: "b \<in> set col"
    and ma: "gm (target_values col y a) = Some ma"
    and mb: "gm (target_values col y b) = Some mb"
    and lt: "ma < mb"
  shows "\<exists>i j. code self' v a = Some i \<and> code self' v b = Some j \<and> i < j"
proof -
  from fit_mapping [OF f v col] obtain temp t where r:
    "join_target self X (Some y) = Inr temp"
    "category_index gm (encoding_method self) temp X v = Inr t"
    "distinct t" "set t = set col" "NaN \<notin> set col" "length col = nrows X"
    "code self' v = map_of (zip t [0 ..< length t])"
    by blast
  from r(1) m have temp: "temp = Some (concat_target X y)"
    by (simp add: join_target_def)
  from r(2) m temp obtain ks ts where
    k: "select (concat_target X y) v = Inr ks"
    and ts: "select (concat_target X y) ''target'' = Inr ts"
    and tt: "t = sort_values_index (group_means gm ks ts)"
    by (auto simp: category_index_def split: sum.splits)
  have n: "max (nrows X) (length y) = length col" using al r(6) by simp
  from select_target_concat [OF ts] have nt: "''target'' \<notin> fst ` set X"
    and ts': "ts = map Num y"
    using al r(6) by (simp_all add: pad_id)
  from select_var_concat [OF col nt, of y] k have ks': "ks = col"
    by (simp add: n pad_id)
  let ?s = "group_means gm col (map Num y)"
  have keys: "a \<in> set (group_keys col)" "b \<in> set (group_keys col)"
    using a b r(5) by (auto simp: set_group_keys)
  have "(a, Some ma) \<in> set ?s"
    using keys(1) ma by (force simp: group_means_def group_values_aligned)
  moreover have "(b, Some mb) \<in> set ?s"
    using keys(2) mb by (force simp: group_means_def group_values_aligned)
  ultimately obtain i j where ij: "i < j" "j < length t" "t ! i = a" "t ! j = b"
    using sort_values_index_less [OF _ _ lt, of a ?s b] unfolding tt ks' ts' by blast
  from ij(1,2) have i: "i < length t" by simp
  have "code self' v a = Some i"
    using map_of_zip_upt [OF r(3) i] ij(3) r(7) by simp
  moreover have "code self' v b = Some j"
    using map_of_zip_upt [OF r(3) ij(2)] ij(4) r(7) by simp
  ultimately show ?thesis using ij(1) by blast
qed

text \<open>
  Claim C1, as stated, fails. The means that fit sorts are the float64 means pandas
  computes, not the arithmetic means. In \<open>cancel_frame\<close> category \<open>a\<close> has the target
  values \<open>10^16\<close>, \<open>1\<close> and \<open>- 10^16\<close>, whose arithmetic mean is \<open>1 / 3\<close>, and
  category \<open>b\<close> has the value \<open>1 / 4\<close>. In float64 the \<open>1\<close> is lost in the sum, the
  computed mean of \<open>a\<close> is \<open>0\<close>, and \<open>a\<close> gets the lower code although the arithmetic
  mean of \<open>b\<close> is strictly less than that of \<open>a\<close>.
\<close>

theorem ordered_codes_ignore_exact_mean:
  "fit no_categorical float64_mean cancel_encoder cancel_frame (Some cancel_target)
     = (None, \<lparr>encoding_method = ''ordered'', variables = Some [''c''],
               encoder_dict = Some [(''c'', [(Str ''a'', 0), (Str ''b'', 1)])],
               input_shape = Some (4, 1)\<rparr>)
   \<and> encoding_method cancel_encoder = ''ordered''
   \<and> length cancel_target = nrows cancel_frame
   \<and> select cancel_frame ''c'' = Inr cancel_column
   \<and> target_mean cancel_column cancel_target (Str ''a'') = 1 / 3
   \<and> target_mean cancel_column cancel_target (Str ''b'') = 1 / 4
   \<and> target_mean cancel_column cancel_target (Str ''b'')
       < target_mean cancel_column cancel_target (Str ''a'')
   \<and> float64_mean (target_values cancel_column cancel_target (Str ''a'')) = Some 0
   \<and> float64_mean (target_values cancel_column cancel_target (Str ''b'')) = Some (1 / 4)
   \<and> code \<lparr>encoding_method = ''ordered'', variables = Some [''c''],
            encoder_dict = Some [(''c'', [(Str ''a'', 0), (Str ''b'', 1)])],
            input_shape = Some (4, 1)\<rparr> ''c'' (Str ''a'') = Some 0
   \<and> code \<lparr>encoding_method = ''ordered'', variables = Some [''c''],
            encoder_dict = Some [(''c'', [(Str ''a'', 0), (Str ''b'', 1)])],
            input_shape = Some (4, 1)\<rparr> ''c'' (Str ''b'') = Some 1"
  by code_simp

text \<open>
  Claim C1, amended. After a successful fit in ordered mode with a target aligned with the
  rows of \<open>X\<close>, for every configured column and every two categories \<open>a\<close> and \<open>b\<close> of
  that column whose means, as pandas computes them in float64 from the target values of
  their rows, are numbers: if the computed mean of \<open>a\<close> is strictly less than the
  computed mean of \<open>b\<close>, then both have a code and the code of \<open>a\<close> is strictly less
  than the code of \<open>b\<close>; and if \<open>a\<close> has code 0, its computed mean is the lowest. This
  holds whatever float64 arithmetic \<open>gm\<close> stands for.
\<close>

theorem ordered_codes_follow_computed_mean:
  assumes "fit fc gm self X (Some y) = (None, self')"
    and "encoding_method self = ''ordered''"
    and "length y = nrows X"
    and "v \<in> set (configured self')"
    and "select X v = Inr col"
    and "a \<in> set col" and "b \<in> set col"
    and "gm (target_values col y a) = Some ma"
    and "gm (target_values col y b) = Some mb"
  shows "(ma < mb \<longrightarrow> (\<exists>i j. code self' v a = Some i \<and> code self' v b = Some j \<and> i < j))
       \<and> (code self' v a = Some 0 \<longrightarrow> ma \<le> mb)"
proof (intro conjI impI)
  assume "ma < mb"
  with assms show "\<exists>i j. code self' v a = Some i \<and> code self' v b = Some j \<and> i < j"
    by (rule ordered_code_less)
next
  assume z: "code self' v a = Some 0"
  show "ma \<le> mb"
  proof (rule ccontr)
    assume "\<not> ma \<le> mb"
    then have "mb < ma" by simp
    from ordered_code_less [OF assms(1-5) assms(7) assms(6) assms(9) assms(8) this] z
    show False by auto
  qed
qed

theorem ordered_codes_follow_computed_mean_witness:
  "fit no_categorical float64_mean (colour_encoder ''ordered'') colour_frame (Some colour_target)
     = (None, ordered_colour_encoder)
   \<and> encoding_method (colour_encoder ''ordered'') = ''ordered''
   \<and> length colour_target = nrows colour_frame
   \<and> ''colour'' \<in> set (configured ordered_colour_encoder)
   \<and> select colour_frame ''colour'' = Inr colour
   \<and> Str ''grey'' \<in> set colour \<and> Str ''red'' \<in> set colour
   \<and> float64_mean (target_values colour colour_target (Str ''grey''))
       = Some (3602879701896397 / 36028797018963968)
   \<and> float64_mean (target_values colour colour_target (Str ''red''))
       = Some (7205759403792795 / 9007199254740992)
   \<and> (3602879701896397 / 36028797018963968 :: rat) < 7205759403792795 / 9007199254740992
   \<and> (\<exists>i j. code ordered_colour_encoder ''colour'' (Str ''grey'') = Some i
          \<and> code ordered_colour_encoder ''colour'' (Str ''red'') = Some j \<and> i < j)
   \<and> code ordered_colour_encoder ''colour'' (Str ''grey'') = Some 0
   \<and> code ordered_colour_encoder ''colour'' (Str ''red'') = Some 2"
proof -
  have h1: "fit no_categorical float64_mean (colour_encoder ''ordered'') colour_frame (Some colour_target)
     = (None, ordered_colour_encoder)" by code_simp
  have h2: "encoding_method (colour_encoder ''ordered'') = ''ordered''" by code_simp
  have h3: "length colour_target = nrows colour_frame" by code_simp
  have h4: "''colour'' \<in> set (configured ordered_colour_encoder)" by code_simp
  have h5: "select colour_frame ''colour'' = Inr colour" by code_simp
  have h6: "Str ''grey'' \<in> set colour" by code_simp
  have h7: "Str ''red'' \<in> set colour" by code_simp
  have h8: "float64_mean (target_values colour colour_target (Str ''grey''))
       = Some (3602879701896397 / 36028797018963968)" by code_simp
  have h9: "float64_mean (target_values colour colour_target (Str ''red''))
       = Some (7205759403792795 / 9007199254740992)" by code_simp
  have lt: "(3602879701896397 / 36028797018963968 :: rat) < 7205759403792795 / 9007199254740992"
    by simp
  have c0: "code ordered_colour_encoder ''colour'' (Str ''grey'') = Some 0" by code_simp
  have c2: "code ordered_colour_encoder ''colour'' (Str ''red'') = Some 2" by code_simp
  from ordered_codes_follow_computed_mean [OF h1 h2 h3 h4 h5 h6 h7 h8 h9]
    h1 h2 h3 h4 h5 h6 h7 h8 h9 lt c0 c2
  show ?thesis by blast
qed



text \<open>Validation leaves the method and the learned mappings alone.\<close>

lemma check_fit_input_and_variables_method:
  "check_fit_input_and_variables fc self X = Inr self1 \<Longrightarrow>
     encoding_method self1 = encoding_method self \<and> encoder_dict self1 = encoder_dict self"
  by (drule check_fit_input_and_variables_Inr(1)) simp

text \<open>
  Claim C10. In arbitrary mode the target has no effect on fit: for any two targets, one
  of them possibly absent, fit returns the same outcome and the same encoder, hence the
  same \<^verbatim>\<open>encoder_dict_\<close>.
\<close>

theorem arbitrary_fit_ignores_target:
  assumes "encoding_method self = ''arbitrary''"
  shows "fit fc gm self X y1 = fit fc gm self X y2"
proof (cases "check_fit_input_and_variables fc self X")
  case (Inl e)
  then show ?thesis by (simp add: fit_def)
next
  case (Inr self1)
  with assms have "encoding_method self1 = ''arbitrary''"
    by (simp add: check_fit_input_and_variables_method)
  then have "join_target self1 X y1 = join_target self1 X y2"
    by (simp add: join_target_def)
  with Inr show ?thesis by (simp add: fit_def)
qed

theorem arbitrary_fit_ignores_target_witness:
  "encoding_method (colour_encoder ''arbitrary'') = ''arbitrary''
   \<and> fit no_categorical float64_mean (colour_encoder ''arbitrary'') colour_frame (Some colour_target)
       = fit no_categorical float64_mean (colour_encoder ''arbitrary'') colour_frame None
   \<and> fit no_categorical float64_mean (colour_encoder ''arbitrary'') colour_frame None
       = (None, arbitrary_colour_encoder)"
proof -
  have h: "encoding_method (colour_encoder ''arbitrary'') = ''arbitrary''" by code_simp
  have r: "fit no_categorical float64_mean (colour_encoder ''arbitrary'') colour_frame None
       = (None, arbitrary_colour_encoder)" by code_simp
  from arbitrary_fit_ignores_target [OF h, of no_categorical float64_mean colour_frame "Some colour_target" None] h r
  show ?thesis by simp
qed

text \<open>
  Claim C7. In ordered mode, fit without a target raises an error for every input and
  leaves \<^verbatim>\<open>encoder_dict_\<close> as it was: no mapping is produced. When the input passes
  validation, the error is the one for the missing target.
\<close>

theorem ordered_fit_without_target_fails:
  assumes "encoding_method self = ''ordered''"
  shows "\<exists>e self'. fit fc gm self X None = (Some e, self')
           \<and> encoder_dict self' = encoder_dict self
           \<and> ((\<exists>s. check_fit_input_and_variables fc self X = Inr s) \<longrightarrow> e = ValueError_no_target)"
proof (cases "check_fit_input_and_variables fc self X")
  case (Inl e)
  then show ?thesis by (simp add: fit_def)
next
  case (Inr self1)
  with assms have "encoding_method self1 = ''ordered''" "encoder_dict self1 = encoder_dict self"
    by (simp_all add: check_fit_input_and_variables_method)
  with Inr show ?thesis by (simp add: fit_def join_target_def)
qed

theorem ordered_fit_without_target_fails_witness:
  "encoding_method (colour_encoder ''ordered'') = ''ordered''
   \<and> fit no_categorical float64_mean (colour_encoder ''ordered'') colour_frame None
       = (Some ValueError_no_target, colour_encoder ''ordered'')
   \<and> encoder_dict (colour_encoder ''ordered'') = None
   \<and> (\<exists>e self'. fit no_categorical float64_mean (colour_encoder ''ordered'') colour_frame None = (Some e, self')
           \<and> encoder_dict self' = encoder_dict (colour_encoder ''ordered'')
           \<and> ((\<exists>s. check_fit_input_and_variables no_categorical (colour_encoder ''ordered'') colour_frame = Inr s)
                 \<longrightarrow> e = ValueError_no_target))"
proof -
  have h: "encoding_method (colour_encoder ''ordered'') = ''ordered''" by code_simp
  have r: "fit no_categorical float64_mean (colour_encoder ''ordered'') colour_frame None
       = (Some ValueError_no_target, colour_encoder ''ordered'')" by code_simp
  have d: "encoder_dict (colour_encoder ''ordered'') = None" by code_simp
  from ordered_fit_without_target_fails [OF h, of no_categorical float64_mean colour_frame] h r d
  show ?thesis by blast
qed

text \<open>
  Claim C6. The constructor rejects an \<^verbatim>\<open>encoding_method\<close> other than
  \<^verbatim>\<open>ordered\<close> and \<^verbatim>\<open>arbitrary\<close> before anything else, whatever the other
  argument is, so that no encoder exists to call fit on. For the two valid values it
  returns the encoder, with no learned state, as soon as the imported check of the
  \<^verbatim>\<open>variables\<close> argument accepts it.
\<close>

theorem constructor_checks_encoding_method:
  "(method \<noteq> ''ordered'' \<and> method \<noteq> ''arbitrary'' \<longrightarrow>
      OrdinalEncoder check method vars = Inl ValueError_encoding_method)
   \<and> (method = ''ordered'' \<or> method = ''arbitrary'' \<longrightarrow>
        (\<forall>vs. check vars = Inr vs \<longrightarrow>
           OrdinalEncoder check method vars =
             Inr \<lparr>encoding_method = method, variables = vs,
                  encoder_dict = None, input_shape = None\<rparr>))"
  by (auto simp: OrdinalEncoder_def)

theorem constructor_checks_encoding_method_witness:
  "OrdinalEncoder Inr ''mean'' None = Inl ValueError_encoding_method
   \<and> OrdinalEncoder (\<lambda>vars. Inl ValueError_variables) ''mean'' None = Inl ValueError_encoding_method
   \<and> OrdinalEncoder Inr ''ordered'' None =
       Inr \<lparr>encoding_method = ''ordered'', variables = None,
            encoder_dict = None, input_shape = None\<rparr>
   \<and> OrdinalEncoder Inr ''arbitrary'' (Some [''colour'']) = Inr (colour_encoder ''arbitrary'')"
proof -
  have a: "''mean'' \<noteq> ''ordered'' \<and> ''mean'' \<noteq> ''arbitrary''" by simp
  have b: "(Inr :: string list option \<Rightarrow> error + string list option) None = Inr None" by simp
  have c: "(Inr :: string list option \<Rightarrow> error + string list option) (Some [''colour'']) = Inr (Some [''colour''])" by simp
  from constructor_checks_encoding_method [of "''mean''" Inr None]
    constructor_checks_encoding_method [of "''mean''" "\<lambda>vars. Inl ValueError_variables" None]
    constructor_checks_encoding_method [of "''ordered''" Inr None]
    constructor_checks_encoding_method [of "''arbitrary''" Inr "Some [''colour'']"]
    a b c
  show ?thesis by (simp add: colour_encoder_def)
qed

text \<open>
  Claim C8. fit joins the target under the fixed label \<^verbatim>\<open>target\<close>. For an input
  that has a feature column with this label the joined frame carries the label twice,
  \<^verbatim>\<open>temp.groupby([var])["target"]\<close> no longer selects the target alone, and fit
  fails instead of ordering the categories by the mean of \<open>y\<close>; without that column the
  same call succeeds.
\<close>

theorem fit_with_target_column_fails:
  "''target'' \<in> set (columns frame_with_target_column)
   \<and> columns (concat_target frame_with_target_column colour_target) = [''colour'', ''target'', ''target'']
   \<and> fit no_categorical float64_mean (colour_encoder ''ordered'') frame_with_target_column (Some colour_target)
       = (Some (NotOneDimensional ''target''), (colour_encoder ''ordered'')\<lparr>encoder_dict := Some []\<rparr>)
   \<and> fit no_categorical float64_mean (colour_encoder ''ordered'') colour_frame (Some colour_target)
       = (None, ordered_colour_encoder)"
  by code_simp




lemma check_fit_input_and_variables_errors:
  "check_fit_input_and_variables fc self X = Inl e \<Longrightarrow>
     e = TypeError_not_a_dataframe \<or> e = ValueError_contains_na \<or> (\<exists>v. e = KeyError v)"
  by (auto simp: check_fit_input_and_variables_def Let_def split: if_splits list.splits)



lemma join_target_errors: "join_target s X y = Inl e \<Longrightarrow> e = ValueError_no_target"
  by (auto simp: join_target_def split: if_splits option.splits)




text \<open>Replacing the cells of the configured columns keeps the shape of the frame.\<close>

lemma filter_replace_column:
  "filter (\<lambda>c. fst c = v) (replace_column X var f)
     = map (\<lambda>c. if fst c = var then (fst c, map f (snd c)) else c) (filter (\<lambda>c. fst c = v) X)"
  unfolding replace_column_def by (induction X) auto

lemma select_replace_column:
  "select X v = Inr col \<Longrightarrow>
     select (replace_column X var f) v = Inr (if v = var then map f col else col)"
proof -
  assume "select X v = Inr col"
  then obtain c where c: "filter (\<lambda>c. fst c = v) X = [c]" "col = snd c"
    by (auto simp: select_Inr_iff)
  then have "c \<in> set (filter (\<lambda>c. fst c = v) X)" by simp
  then have "fst c = v" by simp
  with c show ?thesis
    by (simp add: select_def filter_replace_column)
qed

lemma is_column_replace_column: "is_column (replace_column X var f) v = is_column X v"
proof -
  have "length (filter (\<lambda>c. fst c = v) (replace_column X var f)) = length (filter (\<lambda>c. fst c = v) X)"
    by (simp add: filter_replace_column)
  moreover have "is_column Y v = (length (filter (\<lambda>c. fst c = v) Y) = 1)" for Y
    by (auto simp: is_column_def select_def split: list.splits)
  ultimately show ?thesis by simp
qed

lemma lengths_replace_column:
  "map (\<lambda>c. length (snd c)) (replace_column X var f) = map (\<lambda>c. length (snd c)) X"
  by (simp add: replace_column_def comp_def)

lemma is_dataframe_lengths:
  assumes "map (\<lambda>c. length (snd c)) X' = map (\<lambda>c. length (snd c)) X"
  shows "is_dataframe X' = is_dataframe X"
proof -
  have n: "nrows Y = (case map (\<lambda>c. length (snd c)) Y of [] \<Rightarrow> 0 | n # _ \<Rightarrow> n)" for Y :: frame
    by (simp add: nrows_def split: list.splits)
  have d: "is_dataframe Y = (\<forall>n \<in> set (map (\<lambda>c. length (snd c)) Y). n = nrows Y)" for Y
    by (auto simp: is_dataframe_def)
  show ?thesis unfolding d n assms ..
qed

lemma apply_mappings_columns:
  assumes "distinct vars" and "\<forall>v \<in> set vars. is_column X v \<and> map_of d v \<noteq> None"
  shows "\<exists>X'. apply_mappings conv d vars X = Inr X'
           \<and> length X' = length X
           \<and> map (\<lambda>c. length (snd c)) X' = map (\<lambda>c. length (snd c)) X
           \<and> (\<forall>v. is_column X' v = is_column X v)
           \<and> (\<forall>v col. select X v = Inr col \<longrightarrow>
                 select X' v = Inr (if v \<in> set vars
                                    then map (conv (case map_of d v of Some m \<Rightarrow> m | None \<Rightarrow> [])) col
                                    else col))"
  using assms
proof (induction vars arbitrary: X)
  case Nil then show ?case by simp
next
  case (Cons var vars)
  from Cons.prems obtain m where m: "map_of d var = Some m" by auto
  let ?X1 = "replace_column X var (conv m)"
  have d: "distinct vars" and nv: "var \<notin> set vars" using Cons.prems(1) by simp_all
  have p: "\<forall>v \<in> set vars. is_column ?X1 v \<and> map_of d v \<noteq> None"
    using Cons.prems(2) by (simp add: is_column_replace_column)
  from Cons.IH [OF d p] obtain X' where X':
    "apply_mappings conv d vars ?X1 = Inr X'"
    "length X' = length ?X1"
    "map (\<lambda>c. length (snd c)) X' = map (\<lambda>c. length (snd c)) ?X1"
    "\<forall>v. is_column X' v = is_column ?X1 v"
    "\<forall>v col. select ?X1 v = Inr col \<longrightarrow>
        select X' v = Inr (if v \<in> set vars
                           then map (conv (case map_of d v of Some m \<Rightarrow> m | None \<Rightarrow> [])) col
                           else col)"
    by blast
  have "apply_mappings conv d (var # vars) X = Inr X'" using m X'(1) by simp
  moreover have "length X' = length X" using X'(2) by (simp add: replace_column_def)
  moreover have "map (\<lambda>c. length (snd c)) X' = map (\<lambda>c. length (snd c)) X"
    using X'(3) by (simp add: lengths_replace_column)
  moreover have "\<forall>v. is_column X' v = is_column X v"
    using X'(4) by (simp add: is_column_replace_column)
  moreover have "\<forall>v col. select X v = Inr col \<longrightarrow>
      select X' v = Inr (if v \<in> set (var # vars)
                         then map (conv (case map_of d v of Some m \<Rightarrow> m | None \<Rightarrow> [])) col
                         else col)"
  proof (intro allI impI)
    fix v col assume s: "select X v = Inr col"
    from select_replace_column [OF s, of var "conv m"] X'(5)
    have "select X' v = Inr (if v \<in> set vars
                           then map (conv (case map_of d v of Some m \<Rightarrow> m | None \<Rightarrow> []))
                                  (if v = var then map (conv m) col else col)
                           else (if v = var then map (conv m) col else col))"
      by blast
    with nv m show "select X' v = Inr (if v \<in> set (var # vars)
                         then map (conv (case map_of d v of Some m \<Rightarrow> m | None \<Rightarrow> [])) col
                         else col)"
      by auto
  qed
  ultimately show ?case by blast
qed

text \<open>Encoding and decoding one cell with a mapping that numbers a list from 0.\<close>

lemma inverse_mapping_zip:
  "inverse_mapping (zip t [0 ..< length t]) = zip (map (\<lambda>i. Num (of_nat i)) [0 ..< length t]) t"
  unfolding inverse_mapping_def
  by (rule nth_equalityI) simp_all

lemma distinct_codes: "distinct (map (\<lambda>i. Num (of_nat i)) [0 ..< n])"
  by (simp add: distinct_map inj_on_def)

lemma encode_cell_zip:
  assumes "distinct t" and "i < length t"
  shows "encode_cell (zip t [0 ..< length t]) (t ! i) = Num (of_nat i)"
  using map_of_zip_upt [OF assms] by (simp add: encode_cell_def)

lemma encode_cell_unseen:
  "map_of m c = None \<Longrightarrow> encode_cell m c = NaN"
  by (simp add: encode_cell_def)

lemma decode_cell_zip:
  assumes "i < length t"
  shows "decode_cell (zip t [0 ..< length t]) (Num (of_nat i)) = t ! i"
proof -
  let ?ks = "map (\<lambda>i. Num (of_nat i)) [0 ..< length t]"
  have "map_of (zip ?ks t) (?ks ! i) = Some (t ! i)"
    using assms by (intro map_of_zip_nth) (simp_all add: distinct_codes)
  with assms show ?thesis
    by (simp add: decode_cell_def inverse_mapping_zip)
qed

lemma decode_cell_unseen:
  assumes "\<forall>i < length t. c \<noteq> Num (of_nat i)"
  shows "decode_cell (zip t [0 ..< length t]) c = NaN"
proof -
  let ?ks = "map (\<lambda>i. Num (of_nat i)) [0 ..< length t]"
  have "c \<notin> set ?ks" using assms by auto
  then have none: "map_of (zip ?ks t) c = None"
    by (subst map_of_zip_is_None) simp_all
  show ?thesis unfolding decode_cell_def inverse_mapping_zip none by simp
qed

lemma decode_encode_cell:
  assumes "distinct t" and "c \<in> set t"
  shows "decode_cell (zip t [0 ..< length t]) (encode_cell (zip t [0 ..< length t]) c) = c"
proof -
  from assms(2) obtain i where i: "i < length t" "t ! i = c" by (metis in_set_conv_nth)
  with encode_cell_zip [OF assms(1) i(1)] decode_cell_zip [OF i(1)] show ?thesis by simp
qed

lemma fitted_mapping:
  assumes f: "fit fc gm self0 Xfit y = (None, self)" and v: "v \<in> set (configured self)"
  shows "\<exists>colf t. select Xfit v = Inr colf \<and> distinct t \<and> set t = set colf
           \<and> map_of (learned self) v = Some (zip t [0 ..< length t])
           \<and> code self v = map_of (zip t [0 ..< length t])"
proof -
  from fit_None [OF f] obtain vs temp d where r:
    "variables self = Some vs" "encoder_dict self = Some d"
    "join_target self0 Xfit y = Inr temp"
    "\<forall>v \<in> set vs. is_column Xfit v \<and> \<not> contains_na Xfit v"
    "\<forall>v \<in> set vs. \<exists>t. category_index gm (encoding_method self0) temp Xfit v = Inr t
                \<and> map_of d v = Some (dict_of_enumerate t)"
    by blast
  from v r(1) have vv: "v \<in> set vs" by (simp add: set_configured)
  with r(4) obtain colf where colf: "select Xfit v = Inr colf" "NaN \<notin> set colf"
    using is_column_select contains_na_select by blast
  from vv r(5) obtain t where t: "category_index gm (encoding_method self0) temp Xfit v = Inr t"
    "map_of d v = Some (dict_of_enumerate t)" by blast
  from category_index_keys [OF t(1) r(3) colf] have k: "distinct t" "set t = set colf"
    by simp_all
  have m: "map_of (learned self) v = Some (zip t [0 ..< length t])"
    using r(2) t(2) k(1) by (simp add: learned_def dict_of_enumerate_distinct)
  have "code self v = map_of (zip t [0 ..< length t])"
    using r(2) t(2) k(1) by (auto simp: code_def dict_of_enumerate_distinct)
  with colf(1) k m show ?thesis by blast
qed

lemma check_transform_input_and_state_None:
  assumes "check_transform_input_and_state self X = None"
  shows "\<exists>vs d sh. variables self = Some vs \<and> encoder_dict self = Some d
           \<and> input_shape self = Some sh \<and> is_dataframe X
           \<and> (\<forall>v \<in> set vs. is_column X v) \<and> (\<forall>v \<in> set vs. \<not> contains_na X v)
           \<and> length X = snd sh"
  using assms
  by (auto simp: check_transform_input_and_state_def filter_empty_conv
           split: option.splits if_splits list.splits)

lemma check_transform_input_and_state_shape:
  assumes "check_transform_input_and_state self X = None"
    and "length X' = length X"
    and "map (\<lambda>c. length (snd c)) X' = map (\<lambda>c. length (snd c)) X"
    and "\<forall>v. is_column X' v = is_column X v"
    and "\<forall>v \<in> set (configured self). \<not> contains_na X' v"
  shows "check_transform_input_and_state self X' = None"
proof -
  from check_transform_input_and_state_None [OF assms(1)] obtain vs d sh where r:
    "variables self = Some vs" "encoder_dict self = Some d" "input_shape self = Some sh"
    "is_dataframe X" "\<forall>v \<in> set vs. is_column X v" "length X = snd sh"
    by blast
  have "is_dataframe X'" using is_dataframe_lengths [OF assms(3)] r(4) by simp
  moreover have "filter (\<lambda>v. \<not> is_column X' v) vs = []"
    using r(5) assms(4) by (simp add: filter_empty_conv)
  moreover have "\<not> (\<exists>v \<in> set vs. contains_na X' v)"
    using assms(5) set_configured [OF r(1)] by simp
  ultimately show ?thesis
    using r(1,2,3,6) assms(2) by (simp add: check_transform_input_and_state_def)
qed

lemma apply_fitted:
  assumes f: "fit fc gm self0 Xfit y = (None, self)"
    and ok: "check_transform_input_and_state self X = None"
  shows "\<exists>X'. apply_mappings conv (learned self) (configured self) X = Inr X'
           \<and> length X' = length X
           \<and> map (\<lambda>c. length (snd c)) X' = map (\<lambda>c. length (snd c)) X
           \<and> (\<forall>v. is_column X' v = is_column X v)
           \<and> (\<forall>v \<in> set (configured self). \<exists>col colf t.
                 select X v = Inr col \<and> select Xfit v = Inr colf
                 \<and> distinct t \<and> set t = set colf
                 \<and> map_of (learned self) v = Some (zip t [0 ..< length t])
                 \<and> code self v = map_of (zip t [0 ..< length t])
                 \<and> select X' v = Inr (map (conv (zip t [0 ..< length t])) col))"
proof -
  from check_transform_input_and_state_None [OF ok] obtain vs where r:
    "variables self = Some vs" "\<forall>v \<in> set vs. is_column X v"
    by blast
  have c: "set (configured self) = set vs" using r(1) by (rule set_configured)
  have dist: "distinct (configured self)" by (simp add: configured_def split: option.splits)
  have pre: "\<forall>v \<in> set (configured self). is_column X v \<and> map_of (learned self) v \<noteq> None"
  proof
    fix v assume v: "v \<in> set (configured self)"
    from fitted_mapping [OF f v] have "map_of (learned self) v \<noteq> None" by auto
    with v c r(2) show "is_column X v \<and> map_of (learned self) v \<noteq> None" by simp
  qed
  from apply_mappings_columns [OF dist pre, of conv] obtain X' where X':
    "apply_mappings conv (learned self) (configured self) X = Inr X'"
    "length X' = length X"
    "map (\<lambda>c. length (snd c)) X' = map (\<lambda>c. length (snd c)) X"
    "\<forall>v. is_column X' v = is_column X v"
    "\<forall>v col. select X v = Inr col \<longrightarrow>
        select X' v = Inr (if v \<in> set (configured self)
           then map (conv (case map_of (learned self) v of Some m \<Rightarrow> m | None \<Rightarrow> [])) col
           else col)"
    by blast
  have "\<exists>col colf t. select X v = Inr col \<and> select Xfit v = Inr colf
                 \<and> distinct t \<and> set t = set colf
                 \<and> map_of (learned self) v = Some (zip t [0 ..< length t])
                 \<and> code self v = map_of (zip t [0 ..< length t])
                 \<and> select X' v = Inr (map (conv (zip t [0 ..< length t])) col)"
    if v: "v \<in> set (configured self)" for v
  proof -
    from fitted_mapping [OF f v] obtain colf t where m:
      "select Xfit v = Inr colf" "distinct t" "set t = set colf"
      "map_of (learned self) v = Some (zip t [0 ..< length t])"
      "code self v = map_of (zip t [0 ..< length t])" by blast
    from v c r(2) obtain col where col: "select X v = Inr col"
      using is_column_select by blast
    from X'(5) col v m(4) have "select X' v = Inr (map (conv (zip t [0 ..< length t])) col)"
      by simp
    with col m show ?thesis by blast
  qed
  with X'(1,2,3,4) show ?thesis by blast
qed

lemma code_zip_None:
  "distinct t \<Longrightarrow> map_of (zip t [0 ..< length t]) c = None \<Longrightarrow> c \<notin> set t"
  by (subst (asm) map_of_zip_is_None) simp_all

text \<open>
  Claim C5. For an encoder that a fit has produced and an input that passes the
  validation, \<^verbatim>\<open>transform\<close> returns a frame, and in each configured column every
  cell whose value is absent from the column's learned mapping holds the missing-value
  marker; \<^verbatim>\<open>inverse_transform\<close> returns a frame as well, and every cell that is not
  one of the column's learned codes holds the missing-value marker.
\<close>

theorem unseen_values_become_missing:
  assumes "fit fc gm self0 Xfit y = (None, self)"
    and "check_transform_input_and_state self X = None"
  shows "(\<exists>X'. transform self X = Inr X'
            \<and> (\<forall>v \<in> set (configured self). \<exists>col col'.
                  select X v = Inr col \<and> select X' v = Inr col' \<and> length col' = length col
                  \<and> (\<forall>i < length col. code self v (col ! i) = None \<longrightarrow> col' ! i = NaN)))
       \<and> (\<exists>X'. inverse_transform self X = Inr X'
            \<and> (\<forall>v \<in> set (configured self). \<exists>col col'.
                  select X v = Inr col \<and> select X' v = Inr col' \<and> length col' = length col
                  \<and> (\<forall>i < length col.
                        (\<forall>a j. code self v a = Some j \<longrightarrow> col ! i \<noteq> Num (of_nat j))
                        \<longrightarrow> col' ! i = NaN)))"
proof (rule conjI)
  from apply_fitted [OF assms, of encode_cell] obtain X' where X':
    "apply_mappings encode_cell (learned self) (configured self) X = Inr X'"
    "\<forall>v \<in> set (configured self). \<exists>col colf t.
        select X v = Inr col \<and> select Xfit v = Inr colf \<and> distinct t \<and> set t = set colf
        \<and> code self v = map_of (zip t [0 ..< length t])
        \<and> select X' v = Inr (map (encode_cell (zip t [0 ..< length t])) col)"
    by blast
  have "\<exists>col col'. select X v = Inr col \<and> select X' v = Inr col' \<and> length col' = length col
          \<and> (\<forall>i < length col. code self v (col ! i) = None \<longrightarrow> col' ! i = NaN)"
    if v: "v \<in> set (configured self)" for v
  proof -
    from X'(2) v obtain col t where c: "select X v = Inr col"
      "code self v = map_of (zip t [0 ..< length t])"
      "select X' v = Inr (map (encode_cell (zip t [0 ..< length t])) col)" by blast
    have "\<forall>i < length col. code self v (col ! i) = None \<longrightarrow>
            map (encode_cell (zip t [0 ..< length t])) col ! i = NaN"
      by (simp add: c(2) encode_cell_unseen)
    with c(1,3) show ?thesis by simp
  qed
  with X'(1) assms(2)
  show "\<exists>X'. transform self X = Inr X'
            \<and> (\<forall>v \<in> set (configured self). \<exists>col col'.
                  select X v = Inr col \<and> select X' v = Inr col' \<and> length col' = length col
                  \<and> (\<forall>i < length col. code self v (col ! i) = None \<longrightarrow> col' ! i = NaN))"
    by (simp add: transform_def)
next
  from apply_fitted [OF assms, of decode_cell] obtain X' where X':
    "apply_mappings decode_cell (learned self) (configured self) X = Inr X'"
    "\<forall>v \<in> set (configured self). \<exists>col colf t.
        select X v = Inr col \<and> select Xfit v = Inr colf \<and> distinct t \<and> set t = set colf
        \<and> code self v = map_of (zip t [0 ..< length t])
        \<and> select X' v = Inr (map (decode_cell (zip t [0 ..< length t])) col)"
    by blast
  have "\<exists>col col'. select X v = Inr col \<and> select X' v = Inr col' \<and> length col' = length col
          \<and> (\<forall>i < length col.
                (\<forall>a j. code self v a = Some j \<longrightarrow> col ! i \<noteq> Num (of_nat j))
                \<longrightarrow> col' ! i = NaN)"
    if v: "v \<in> set (configured self)" for v
  proof -
    from X'(2) v obtain col t where c: "select X v = Inr col" "distinct t"
      "code self v = map_of (zip t [0 ..< length t])"
      "select X' v = Inr (map (decode_cell (zip t [0 ..< length t])) col)" by blast
    have "map (decode_cell (zip t [0 ..< length t])) col ! i = NaN"
      if i: "i < length col"
        and n: "\<forall>a j. code self v a = Some j \<longrightarrow> col ! i \<noteq> Num (of_nat j)" for i
    proof -
      have "\<forall>j < length t. col ! i \<noteq> Num (of_nat j)"
      proof (intro allI impI)
        fix j assume j: "j < length t"
        from map_of_zip_upt [OF c(2) j] have "code self v (t ! j) = Some j" by (simp add: c(3))
        with n show "col ! i \<noteq> Num (of_nat j)" by blast
      qed
      from decode_cell_unseen [OF this] i show ?thesis by simp
    qed
    with c(1,4) show ?thesis by simp
  qed
  with X'(1) assms(2)
  show "\<exists>X'. inverse_transform self X = Inr X'
            \<and> (\<forall>v \<in> set (configured self). \<exists>col col'.
                  select X v = Inr col \<and> select X' v = Inr col' \<and> length col' = length col
                  \<and> (\<forall>i < length col.
                        (\<forall>a j. code self v a = Some j \<longrightarrow> col ! i \<noteq> Num (of_nat j))
                        \<longrightarrow> col' ! i = NaN))"
    by (simp add: inverse_transform_def)
qed

theorem unseen_values_become_missing_witness:
  "fit no_categorical float64_mean (colour_encoder ''ordered'') colour_frame (Some colour_target)
     = (None, ordered_colour_encoder)
   \<and> check_transform_input_and_state ordered_colour_encoder green_frame = None
   \<and> check_transform_input_and_state ordered_colour_encoder code_frame = None
   \<and> transform ordered_colour_encoder green_frame = Inr [(''colour'', [Num 1, NaN, Num 2])]
   \<and> inverse_transform ordered_colour_encoder code_frame
       = Inr [(''colour'', [Str ''blue'', NaN, Str ''grey''])]
   \<and> (\<exists>X'. transform ordered_colour_encoder green_frame = Inr X'
         \<and> (\<forall>v \<in> set (configured ordered_colour_encoder). \<exists>col col'.
               select green_frame v = Inr col \<and> select X' v = Inr col' \<and> length col' = length col
               \<and> (\<forall>i < length col. code ordered_colour_encoder v (col ! i) = None
                     \<longrightarrow> col' ! i = NaN)))
   \<and> (\<exists>X'. inverse_transform ordered_colour_encoder code_frame = Inr X'
         \<and> (\<forall>v \<in> set (configured ordered_colour_encoder). \<exists>col col'.
               select code_frame v = Inr col \<and> select X' v = Inr col' \<and> length col' = length col
               \<and> (\<forall>i < length col.
                     (\<forall>a j. code ordered_colour_encoder v a = Some j \<longrightarrow> col ! i \<noteq> Num (of_nat j))
                     \<longrightarrow> col' ! i = NaN)))"
proof -
  have h1: "fit no_categorical float64_mean (colour_encoder ''ordered'') colour_frame (Some colour_target)
     = (None, ordered_colour_encoder)" by code_simp
  have h2: "check_transform_input_and_state ordered_colour_encoder green_frame = None"
    by code_simp
  have h3: "check_transform_input_and_state ordered_colour_encoder code_frame = None"
    by code_simp
  have e1: "transform ordered_colour_encoder green_frame = Inr [(''colour'', [Num 1, NaN, Num 2])]"
    by code_simp
  have e2: "inverse_transform ordered_colour_encoder code_frame
       = Inr [(''colour'', [Str ''blue'', NaN, Str ''grey''])]"
    by code_simp
  from unseen_values_become_missing [OF h1 h2] unseen_values_become_missing [OF h1 h3]
    h1 h2 h3 e1 e2
  show ?thesis by blast
qed

text \<open>Decoding what was encoded, column by column.\<close>

lemma contains_na_encoded:
  assumes "distinct t" and "set col \<subseteq> set t"
  shows "NaN \<notin> set (map (encode_cell (zip t [0 ..< length t])) col)"
proof
  assume "NaN \<in> set (map (encode_cell (zip t [0 ..< length t])) col)"
  then obtain c where c: "c \<in> set col" "encode_cell (zip t [0 ..< length t]) c = NaN" by auto
  with assms(2) obtain i where "i < length t" "t ! i = c" by (metis in_set_conv_nth subsetD)
  with encode_cell_zip [OF assms(1), of i] c(2) show False by simp
qed

lemma inverse_of_transform:
  assumes f: "fit fc gm self0 Xfit y = (None, self)"
    and ok: "check_transform_input_and_state self X = None"
    and t1: "transform self X = Inr X1"
    and ok1: "check_transform_input_and_state self X1 = None"
  shows "\<exists>X2. inverse_transform self X1 = Inr X2
           \<and> (\<forall>v \<in> set (configured self). \<exists>colf col col2.
                 select Xfit v = Inr colf \<and> select X v = Inr col \<and> select X2 v = Inr col2
                 \<and> length col2 = length col
                 \<and> (\<forall>i < length col. col ! i \<in> set colf \<longrightarrow> col2 ! i = col ! i))"
proof -
  from t1 ok have a1: "apply_mappings encode_cell (learned self) (configured self) X = Inr X1"
    by (simp add: transform_def)
  from apply_fitted [OF f ok, of encode_cell] obtain X1' where X1':
    "apply_mappings encode_cell (learned self) (configured self) X = Inr X1'"
    "\<forall>v \<in> set (configured self). \<exists>col colf t.
        select X v = Inr col \<and> select Xfit v = Inr colf \<and> distinct t \<and> set t = set colf
        \<and> map_of (learned self) v = Some (zip t [0 ..< length t])
        \<and> select X1' v = Inr (map (encode_cell (zip t [0 ..< length t])) col)"
    by blast
  from X1'(1) a1 have "X1' = X1" by simp
  with X1'(2) have X1:
    "\<forall>v \<in> set (configured self). \<exists>col colf t.
        select X v = Inr col \<and> select Xfit v = Inr colf \<and> distinct t \<and> set t = set colf
        \<and> map_of (learned self) v = Some (zip t [0 ..< length t])
        \<and> select X1 v = Inr (map (encode_cell (zip t [0 ..< length t])) col)"
    by simp
  from apply_fitted [OF f ok1, of decode_cell] obtain X2 where X2:
    "apply_mappings decode_cell (learned self) (configured self) X1 = Inr X2"
    "\<forall>v \<in> set (configured self). \<exists>col colf t.
        select X1 v = Inr col \<and> select Xfit v = Inr colf \<and> distinct t \<and> set t = set colf
        \<and> map_of (learned self) v = Some (zip t [0 ..< length t])
        \<and> select X2 v = Inr (map (decode_cell (zip t [0 ..< length t])) col)"
    by blast
  have t2: "inverse_transform self X1 = Inr X2"
    using X2(1) ok1 by (simp add: inverse_transform_def)
  have "\<exists>colf col col2. select Xfit v = Inr colf \<and> select X v = Inr col \<and> select X2 v = Inr col2
          \<and> length col2 = length col
          \<and> (\<forall>i < length col. col ! i \<in> set colf \<longrightarrow> col2 ! i = col ! i)"
    if v: "v \<in> set (configured self)" for v
  proof -
    from X1 v obtain col colf t where a: "select X v = Inr col" "select Xfit v = Inr colf"
      "distinct t" "set t = set colf"
      "map_of (learned self) v = Some (zip t [0 ..< length t])"
      "select X1 v = Inr (map (encode_cell (zip t [0 ..< length t])) col)" by blast
    from X2(2) v obtain col1 t' where b: "select X1 v = Inr col1"
      "map_of (learned self) v = Some (zip t' [0 ..< length t'])"
      "select X2 v = Inr (map (decode_cell (zip t' [0 ..< length t'])) col1)" by blast
    from a(5) b(2) have tt: "zip t' [0 ..< length t'] = zip t [0 ..< length t]" by simp
    from a(6) b(1) have c1: "col1 = map (encode_cell (zip t [0 ..< length t])) col" by simp
    let ?col2 = "map (decode_cell (zip t [0 ..< length t])) col1"
    have s2: "select X2 v = Inr ?col2" using b(3) tt by simp
    have "\<forall>i < length col. col ! i \<in> set colf \<longrightarrow> ?col2 ! i = col ! i"
      using a(3,4) by (simp add: c1 decode_encode_cell)
    moreover have "length ?col2 = length col" by (simp add: c1)
    ultimately show ?thesis using a(1,2) s2 by blast
  qed
  with t2 show ?thesis by blast
qed

text \<open>
  Claim C4, as stated, fails. The encoder is fitted on two columns. In a row whose colour
  was present in the fit data and whose size was not, \<^verbatim>\<open>transform\<close> writes the
  missing-value marker for the size, and \<^verbatim>\<open>inverse_transform\<close> rejects the encoded
  row because of that marker: the colour is not reproduced although it was present in
  the fit data.
\<close>

theorem round_trip_rejects_unseen_category:
  "fit no_categorical float64_mean two_column_encoder two_column_frame None
     = (None, fitted_two_column_encoder)
   \<and> select two_column_frame ''colour'' = Inr colour
   \<and> select mixed_row ''colour'' = Inr [Str ''blue'']
   \<and> Str ''blue'' \<in> set colour
   \<and> transform fitted_two_column_encoder mixed_row
       = Inr [(''colour'', [Num 0]), (''size'', [NaN])]
   \<and> inverse_transform fitted_two_column_encoder [(''colour'', [Num 0]), (''size'', [NaN])]
       = Inl ValueError_contains_na"
  by code_simp

text \<open>
  Claim C4, amended. For an encoder that a fit has produced and an input that passes the
  validation, \<^verbatim>\<open>transform\<close> succeeds. If every cell of every configured column of the
  input holds a category that was present in that column of the fit data, then
  \<^verbatim>\<open>inverse_transform\<close> of the result succeeds and gives back the configured columns
  of the input. And whenever \<^verbatim>\<open>inverse_transform\<close> of the result succeeds, every cell
  of a configured column whose category was present in that column of the fit data holds
  its original category again.
\<close>

theorem round_trip_of_seen_categories:
  assumes "fit fc gm self0 Xfit y = (None, self)"
    and "check_transform_input_and_state self X = None"
  shows "\<exists>X1. transform self X = Inr X1
           \<and> ((\<forall>v \<in> set (configured self). \<exists>colf col.
                   select Xfit v = Inr colf \<and> select X v = Inr col \<and> set col \<subseteq> set colf)
                \<longrightarrow> (\<exists>X2. inverse_transform self X1 = Inr X2
                       \<and> (\<forall>v \<in> set (configured self). select X2 v = select X v)))
           \<and> (\<forall>X2. inverse_transform self X1 = Inr X2 \<longrightarrow>
                 (\<forall>v \<in> set (configured self). \<exists>colf col col2.
                    select Xfit v = Inr colf \<and> select X v = Inr col \<and> select X2 v = Inr col2
                    \<and> length col2 = length col
                    \<and> (\<forall>i < length col. col ! i \<in> set colf \<longrightarrow> col2 ! i = col ! i)))"
proof -
  note f = assms(1) and ok = assms(2)
  from apply_fitted [OF f ok, of encode_cell] obtain X1 where X1:
    "apply_mappings encode_cell (learned self) (configured self) X = Inr X1"
    "length X1 = length X"
    "map (\<lambda>c. length (snd c)) X1 = map (\<lambda>c. length (snd c)) X"
    "\<forall>v. is_column X1 v = is_column X v"
    "\<forall>v \<in> set (configured self). \<exists>col colf t.
        select X v = Inr col \<and> select Xfit v = Inr colf \<and> distinct t \<and> set t = set colf
        \<and> select X1 v = Inr (map (encode_cell (zip t [0 ..< length t])) col)"
    by blast
  have t1: "transform self X = Inr X1" using X1(1) ok by (simp add: transform_def)
  have seen: "\<exists>X2. inverse_transform self X1 = Inr X2
                 \<and> (\<forall>v \<in> set (configured self). select X2 v = select X v)"
    if all: "\<forall>v \<in> set (configured self). \<exists>colf col.
               select Xfit v = Inr colf \<and> select X v = Inr col \<and> set col \<subseteq> set colf"
  proof -
    have na: "\<forall>v \<in> set (configured self). \<not> contains_na X1 v"
    proof
      fix v assume v: "v \<in> set (configured self)"
      from X1(5) v obtain col colf t where a: "select X v = Inr col" "select Xfit v = Inr colf"
        "distinct t" "set t = set colf"
        "select X1 v = Inr (map (encode_cell (zip t [0 ..< length t])) col)" by blast
      from all v a(1,2) have "set col \<subseteq> set colf" by fastforce
      with a(4) have "set col \<subseteq> set t" by simp
      from contains_na_encoded [OF a(3) this] a(5) show "\<not> contains_na X1 v"
        by (simp add: contains_na_select)
    qed
    have ok1: "check_transform_input_and_state self X1 = None"
      using check_transform_input_and_state_shape [OF ok X1(2,3,4) na] .
    from inverse_of_transform [OF f ok t1 ok1] obtain X2 where X2:
      "inverse_transform self X1 = Inr X2"
      "\<forall>v \<in> set (configured self). \<exists>colf col col2.
          select Xfit v = Inr colf \<and> select X v = Inr col \<and> select X2 v = Inr col2
          \<and> length col2 = length col
          \<and> (\<forall>i < length col. col ! i \<in> set colf \<longrightarrow> col2 ! i = col ! i)"
      by blast
    have "select X2 v = select X v" if v: "v \<in> set (configured self)" for v
    proof -
      from X2(2) v obtain colf col col2 where b: "select Xfit v = Inr colf" "select X v = Inr col"
        "select X2 v = Inr col2" "length col2 = length col"
        "\<forall>i < length col. col ! i \<in> set colf \<longrightarrow> col2 ! i = col ! i" by blast
      from all v b(1,2) have "set col \<subseteq> set colf" by fastforce
      with b(5) have "\<forall>i < length col. col2 ! i = col ! i" by (meson nth_mem subsetD)
      with b(4) have "col2 = col" by (simp add: nth_equalityI)
      with b(2,3) show ?thesis by simp
    qed
    with X2(1) show ?thesis by blast
  qed
  have restored: "\<forall>v \<in> set (configured self). \<exists>colf col col2.
                select Xfit v = Inr colf \<and> select X v = Inr col \<and> select X2 v = Inr col2
                \<and> length col2 = length col
                \<and> (\<forall>i < length col. col ! i \<in> set colf \<longrightarrow> col2 ! i = col ! i)"
    if inv: "inverse_transform self X1 = Inr X2" for X2
  proof -
    from inv have ok1: "check_transform_input_and_state self X1 = None"
      by (auto simp: inverse_transform_def split: option.splits)
    from inverse_of_transform [OF f ok t1 ok1] inv show ?thesis by auto
  qed
  from t1 seen restored show ?thesis by blast
qed

theorem round_trip_of_seen_categories_witness:
  "fit no_categorical float64_mean two_column_encoder two_column_frame None
     = (None, fitted_two_column_encoder)
   \<and> check_transform_input_and_state fitted_two_column_encoder seen_rows = None
   \<and> transform fitted_two_column_encoder seen_rows
       = Inr [(''colour'', [Num 2, Num 0]), (''size'', [Num 2, Num 0])]
   \<and> inverse_transform fitted_two_column_encoder
         [(''colour'', [Num 2, Num 0]), (''size'', [Num 2, Num 0])]
       = Inr seen_rows
   \<and> configured fitted_two_column_encoder = [''colour'', ''size'']
   \<and> select two_column_frame ''colour'' = Inr colour
   \<and> select two_column_frame ''size'' = Inr size_column
   \<and> select seen_rows ''colour'' = Inr [Str ''grey'', Str ''blue'']
   \<and> select seen_rows ''size'' = Inr [Str ''L'', Str ''S'']
   \<and> Str ''grey'' \<in> set colour \<and> Str ''blue'' \<in> set colour
   \<and> Str ''L'' \<in> set size_column \<and> Str ''S'' \<in> set size_column
   \<and> (\<exists>X1. transform fitted_two_column_encoder seen_rows = Inr X1
         \<and> (\<exists>X2. inverse_transform fitted_two_column_encoder X1 = Inr X2
               \<and> (\<forall>v \<in> set (configured fitted_two_column_encoder).
                     select X2 v = select seen_rows v)))"
proof -
  have h1: "fit no_categorical float64_mean two_column_encoder two_column_frame None
     = (None, fitted_two_column_encoder)" by code_simp
  have h2: "check_transform_input_and_state fitted_two_column_encoder seen_rows = None"
    by code_simp
  have e1: "transform fitted_two_column_encoder seen_rows
       = Inr [(''colour'', [Num 2, Num 0]), (''size'', [Num 2, Num 0])]"
    by code_simp
  have e2: "inverse_transform fitted_two_column_encoder
         [(''colour'', [Num 2, Num 0]), (''size'', [Num 2, Num 0])]
       = Inr seen_rows"
    by code_simp
  have c: "configured fitted_two_column_encoder = [''colour'', ''size'']" by code_simp
  have s1: "select two_column_frame ''colour'' = Inr colour" by code_simp
  have s2: "select two_column_frame ''size'' = Inr size_column" by code_simp
  have s3: "select seen_rows ''colour'' = Inr [Str ''grey'', Str ''blue'']" by code_simp
  have s4: "select seen_rows ''size'' = Inr [Str ''L'', Str ''S'']" by code_simp
  have i1: "Str ''grey'' \<in> set colour" "Str ''blue'' \<in> set colour" by code_simp+
  have i2: "Str ''L'' \<in> set size_column" "Str ''S'' \<in> set size_column" by code_simp+
  have all: "\<forall>v \<in> set (configured fitted_two_column_encoder). \<exists>colf col.
         select two_column_frame v = Inr colf \<and> select seen_rows v = Inr col
         \<and> set col \<subseteq> set colf"
    unfolding c using s1 s2 s3 s4 i1 i2 by simp
  from round_trip_of_seen_categories [OF h1 h2] all h1 h2 e1 e2 c s1 s2 s3 s4 i1 i2
  show ?thesis by blast
qed

end
